theory Spec2Isabelle
  imports Complex_Main "HOL-Library.Sublist"
begin

section \<open>JavaScript values used by the entry controller\<close>

text \<open>
  The controller (src/src/models/StaffDetails.js, from line 51 on) is a set of request
  handlers over a document store. Strings are lists of ASCII characters, time stamps
  (\<open>Date\<close> values) are integers counting milliseconds since the epoch, identifiers are
  natural numbers. Numbers in request bodies are finite and modelled as rationals. The
  receipt counter is a JavaScript number holding an integer from 0 to \<open>2 ^ 53\<close>: up to
  there every integer is a number of its own and \<open>String\<close> prints its decimal digits,
  and the handler's increment never takes the counter beyond.
\<close>

datatype jsval = JUndefined | JNull | JBool bool | JNum rat | JNaN | JStr string

text \<open>\<open>ToBoolean\<close>: what \<open>!v\<close> negates.\<close>

fun truthy :: "jsval \<Rightarrow> bool" where
  "truthy JUndefined = False"
| "truthy JNull = False"
| "truthy (JBool b) = b"
| "truthy (JNum r) = (r \<noteq> 0)"
| "truthy JNaN = False"
| "truthy (JStr s) = (s \<noteq> [])"

text \<open>\<open>a || b\<close> on values.\<close>

definition js_or :: "jsval \<Rightarrow> jsval \<Rightarrow> jsval" where
  "js_or a b = (if truthy a then a else b)"

text \<open>\<open>String(n)\<close> for an integer from 0 to \<open>2 ^ 53\<close>: its decimal digits.\<close>

definition digit_char :: "nat \<Rightarrow> char" where
  "digit_char d = ''0123456789'' ! d"

fun js_String :: "nat \<Rightarrow> string" where
  "js_String n = (if n < 10 then [digit_char n] else js_String (n div 10) @ [digit_char (n mod 10)])"

declare js_String.simps [simp del]

text \<open>
  \<open>n += 1\<close> on a number holding an integer: exact below \<open>2 ^ 53\<close>. At \<open>2 ^ 53\<close>
  the sum \<open>2 ^ 53 + 1\<close> is no number of the floating-point format and is rounded back
  to \<open>2 ^ 53\<close>, so the counter stays where it is.
\<close>

definition js_add1 :: "nat \<Rightarrow> nat" where
  "js_add1 n = (if n < 2 ^ 53 then n + 1 else n)"

text \<open>\<open>s.padStart(n, c)\<close> with a one-character filler.\<close>

definition padStart :: "nat \<Rightarrow> char \<Rightarrow> string \<Rightarrow> string" where
  "padStart n c s = replicate (n - length s) c @ s"

section \<open>Data model\<close>

type_synonym date = int
type_synonym objectId = nat

record product =
  productName :: string
  tax :: jsval

record charges =
  taxAmount :: jsval
  totalAmount :: jsval

text \<open>
  The \<open>pickupAndDelivery\<close> object; \<open>expectedDelivery\<close> is its
  \<open>expectedDeliveryDate\<close>, renamed to keep it apart from the field of that name at the
  top of an entry.
\<close>

record pickup =
  expectedDelivery :: "date option"
  pickupDate :: "date option"
  processedAndPackedDate :: "date option"
  deliveryDate :: "date option"

text \<open>
  Modelled from the spec: the Entry schema (models/NewEntry) is not in src. Its fields are the
  ones the controller passes to \<open>new Entry\<close>, plus the three it reads elsewhere:
  \<open>status\<close>, \<open>visible\<close> and \<open>createdAt\<close>. \<open>status\<close> is kept as a raw optional
  string, so that a document without a status, or with one outside the four known values,
  can be written down. Fields that no handler reads or writes (the store's own
  \<open>updatedAt\<close> and version key) are left out.
\<close>

record entry =
  ident :: objectId
  customer :: string
  customerPhone :: string
  customerId :: objectId
  receiptNo :: string
  discount :: jsval
  remarks :: jsval
  expectedDeliveryDate :: "date option"
  products :: "product list option"
  charges :: "charges option"
  pickupAndDelivery :: pickup
  status :: "string option"
  visible :: bool
  createdAt :: date

record customerDoc =
  phone :: string

text \<open>The summary record kept by the statistics middleware.\<close>

record entryStat =
  statPending :: nat
  statCollected :: nat
  statProcessedAndPacked :: nat
  statDelivered :: nat
  statTodayExpected :: nat
  statTodayReceived :: nat

text \<open>
  The store: the Entry collection in insertion order, the Customer collection, the
  \<open>currentReceiptNumber\<close> of the ReceiptNumber record that \<open>findOne\<close> returns
  (\<open>None\<close> when the collection is empty), the EntryStat record and the server log.
  \<open>storeRegex\<close> is the store's regular-expression engine on the patterns that the
  model below does not cover: for such a pattern, \<open>None\<close> when the store refuses it
  (the query fails), else the texts in which the store finds a match for it, letter case
  ignored. It is a parameter of the store.
\<close>

record db =
  entries :: "entry list"
  customers :: "objectId \<Rightarrow> customerDoc option"
  currentReceiptNumber :: "nat option"
  entryStat :: "entryStat option"
  serverLog :: "string list"
  storeRegex :: "string \<Rightarrow> (string \<Rightarrow> bool) option"

text \<open>
  Every awaited store call may reject. Which ones do, and with which message, is an input
  of the request, as are the clock (\<open>new Date()\<close>), the server's own time zone (its
  offset from UTC in milliseconds, taken as fixed) and the identifier the driver generates
  for a new document. A rejected write stands for every reason the store has to refuse it:
  a failed schema validator, a cast error, conflicting update paths, a lost connection.
\<close>

datatype site =
    FindCustomer | FindReceipt | SaveReceipt | SaveEntry | UpdateEntry | DeleteEntry
  | FindEntry | FindEntries | CountEntries | Aggregate | Recompute

record env =
  now :: date
  serverOffset :: int
  freshId :: objectId
  throws :: "site \<Rightarrow> string option"

text \<open>
  What \<open>.select("customer customerId receiptNo status charges pickupAndDelivery createdAt")\<close>
  keeps of an entry, with its id.
\<close>

record orderDoc =
  oIdent :: objectId
  oCustomer :: string
  oCustomerId :: objectId
  oReceiptNo :: string
  oStatus :: "string option"
  oCharges :: "charges option"
  oPickupAndDelivery :: pickup
  oCreatedAt :: date

record summary =
  sPending :: nat
  sCollected :: nat
  sProcessedAndPacked :: nat
  sDelivered :: nat
  sTodayExpected :: nat
  sTodayReceived :: nat
  sDate :: int
  sTotal :: nat

record weekRow =
  wDate :: int
  wTotalSales :: rat
  wOrderCount :: nat

datatype payload =
    NoData
  | EntryData entry
  | EntriesData "entry list"
  | ToggleData objectId bool
  | PageData int int nat "entry list"
  | SummaryData summary
  | OrdersData string nat int int "int option" "orderDoc list"
  | RecentData nat "weekRow list"

record response =
  code :: nat
  success :: bool
  message :: "string option"
  payload :: payload

definition reply :: "nat \<Rightarrow> bool \<Rightarrow> string \<Rightarrow> payload \<Rightarrow> response" where
  "reply c ok m p = \<lparr>code = c, success = ok, message = Some m, payload = p\<rparr>"

section \<open>Tax defaults\<close>

text \<open>\<open>if (!x && x !== 0) x = 0\<close>, as written in both createNewentry and updateEntry.\<close>

definition defaultZero :: "jsval \<Rightarrow> jsval" where
  "defaultZero v = (if \<not> truthy v \<and> v \<noteq> JNum 0 then JNum 0 else v)"

definition defaultProductTax :: "product list option \<Rightarrow> product list option" where
  "defaultProductTax ps = map_option (map (\<lambda>p. p\<lparr>tax := defaultZero (tax p)\<rparr>)) ps"

definition defaultTaxAmount :: "charges option \<Rightarrow> charges option" where
  "defaultTaxAmount c = map_option (\<lambda>c. c\<lparr>taxAmount := defaultZero (taxAmount c)\<rparr>) c"

section \<open>Strings and numbers in query parameters\<close>

text \<open>
  White space as \<open>String.prototype.trim\<close>, \<open>parseInt\<close> and the conversion of a string
  to a number see it (tab, line feed, vertical tab, form feed, carriage return, space).
\<close>

definition isWs :: "char \<Rightarrow> bool" where
  "isWs c = (c \<in> set [CHR 0x09, CHR 0x0A, CHR 0x0B, CHR 0x0C, CHR 0x0D, CHR '' ''])"

definition trim :: "string \<Rightarrow> string" where
  "trim s = rev (dropWhile isWs (rev (dropWhile isWs s)))"

text \<open>
  The value of a character as a digit; 99 for a character that is no digit in any radix
  up to 36.
\<close>

definition digitOf :: "char \<Rightarrow> nat" where
  "digitOf c =
     (let n = (of_char c :: nat) in
      if 48 \<le> n \<and> n \<le> 57 then n - 48
      else if 97 \<le> n \<and> n \<le> 122 then n - 87
      else if 65 \<le> n \<and> n \<le> 90 then n - 55
      else 99)"

definition isDigit :: "char \<Rightarrow> bool" where
  "isDigit c = (digitOf c < 10)"

text \<open>The number a string of decimal digits denotes.\<close>

definition decimalValue :: "string \<Rightarrow> nat" where
  "decimalValue s = foldl (\<lambda>a c. a * 10 + digitOf c) 0 s"

definition stripSign :: "string \<Rightarrow> string" where
  "stripSign s = (case s of [] \<Rightarrow> [] | c # r \<Rightarrow> if c = CHR ''+'' \<or> c = CHR ''-'' then r else s)"

text \<open>
  \<open>parseInt(s)\<close> without a radix: leading white space, a sign, a \<open>0x\<close> prefix for
  radix 16, then the longest run of digits; NaN (\<open>None\<close>) when that run is empty.
\<close>

definition js_parseInt :: "string \<Rightarrow> int option" where
  "js_parseInt s =
     (let s1 = dropWhile isWs s;
          neg = (s1 \<noteq> [] \<and> hd s1 = CHR ''-'');
          s2 = stripSign s1;
          hex = (case s2 of a # b # _ \<Rightarrow> a = CHR ''0'' \<and> (b = CHR ''x'' \<or> b = CHR ''X'') | _ \<Rightarrow> False);
          radix = (if hex then 16 else 10);
          s3 = (if hex then drop 2 s2 else s2);
          ds = takeWhile (\<lambda>c. digitOf c < radix) s3;
          v = int (foldl (\<lambda>a c. a * radix + digitOf c) 0 ds)
      in if ds = [] then None else Some (if neg then - v else v))"


text \<open>
  \<open>isNaN(s)\<close> converts the string to a number: NaN unless the trimmed string is empty,
  a decimal literal with an optional sign (digits, a fraction, an exponent, or
  \<open>Infinity\<close>), or an unsigned hexadecimal, octal or binary integer literal.
\<close>

definition exponentPart :: "string \<Rightarrow> bool" where
  "exponentPart r =
     (case r of [] \<Rightarrow> True
      | e # r' \<Rightarrow> (e = CHR ''e'' \<or> e = CHR ''E'') \<and> stripSign r' \<noteq> [] \<and> list_all isDigit (stripSign r'))"

definition decimalLiteral :: "string \<Rightarrow> bool" where
  "decimalLiteral u =
     (let i = takeWhile isDigit u; r1 = dropWhile isDigit u
      in case r1 of
           c # r \<Rightarrow>
             if c = CHR ''.''
             then (i \<noteq> [] \<or> takeWhile isDigit r \<noteq> []) \<and> exponentPart (dropWhile isDigit r)
             else i \<noteq> [] \<and> exponentPart r1
         | [] \<Rightarrow> i \<noteq> [])"

definition nonDecimalLiteral :: "string \<Rightarrow> bool" where
  "nonDecimalLiteral t =
     (case t of
        z # x # ds \<Rightarrow>
          z = CHR ''0'' \<and> ds \<noteq> [] \<and>
          (((x = CHR ''x'' \<or> x = CHR ''X'') \<and> list_all (\<lambda>c. digitOf c < 16) ds) \<or>
           ((x = CHR ''o'' \<or> x = CHR ''O'') \<and> list_all (\<lambda>c. digitOf c < 8) ds) \<or>
           ((x = CHR ''b'' \<or> x = CHR ''B'') \<and> list_all (\<lambda>c. digitOf c < 2) ds))
      | _ \<Rightarrow> False)"

definition js_isNaN :: "string \<Rightarrow> bool" where
  "js_isNaN s =
     (let t = trim s
      in \<not> (t = [] \<or> nonDecimalLiteral t \<or> stripSign t = ''Infinity'' \<or> decimalLiteral (stripSign t)))"

section \<open>Regular expressions in the customer search\<close>

text \<open>
  The search hands the query string to the store as a regular expression with option
  \<open>i\<close>. The model covers the patterns built from ordinary characters and the dot:
  an ordinary character matches itself in either case, the dot matches every character but
  the line feed, and the search is unanchored. For a pattern with any other metacharacter
  (or a character outside ASCII) \<open>compileRegex\<close> gives \<open>None\<close>, and the store's own
  engine, \<open>storeRegex\<close>, says what the pattern matches.
\<close>

datatype rx = Lit char | AnyChar

definition metaChars :: "char list" where
  "metaChars = CHR 0x5C # ''^$*+?()[]{}|''"

definition compileRegex :: "string \<Rightarrow> rx list option" where
  "compileRegex q =
     (if list_ex (\<lambda>c. c \<in> set metaChars \<or> 128 \<le> (of_char c :: nat)) q then None
      else Some (map (\<lambda>c. if c = CHR ''.'' then AnyChar else Lit c) q))"

definition toLower :: "char \<Rightarrow> char" where
  "toLower c =
     (let n = (of_char c :: nat) in if 65 \<le> n \<and> n \<le> 90 then char_of (n + 32) else c)"

fun matchHere :: "rx list \<Rightarrow> string \<Rightarrow> bool" where
  "matchHere [] s = True"
| "matchHere (r # rs) [] = False"
| "matchHere (Lit c # rs) (x # xs) = (toLower c = toLower x \<and> matchHere rs xs)"
| "matchHere (AnyChar # rs) (x # xs) = (x \<noteq> CHR 0x0A \<and> matchHere rs xs)"

fun regexSearch :: "rx list \<Rightarrow> string \<Rightarrow> bool" where
  "regexSearch rs [] = matchHere rs []"
| "regexSearch rs (x # xs) = (matchHere rs (x # xs) \<or> regexSearch rs xs)"

text \<open>
  \<open>{ $regex: q, $options: "i" }\<close> in a store: \<open>None\<close> when the store refuses the
  pattern, else the test it stands for.
\<close>

definition regexI :: "db \<Rightarrow> string \<Rightarrow> (string \<Rightarrow> bool) option" where
  "regexI d q = (case compileRegex q of Some r \<Rightarrow> Some (regexSearch r) | None \<Rightarrow> storeRegex d q)"

section \<open>Calendar days\<close>

text \<open>
  A calendar day is named by its number since the epoch in the zone at hand; the text
  \<open>YYYY-MM-DD\<close> that the code prints for it is one name per day and is not spelled out.
  A zone is its offset from UTC in milliseconds; Asia/Kolkata is UTC+05:30 all year.
\<close>

definition msPerDay :: int where
  "msPerDay = 86400000"

definition kolkata :: int where
  "kolkata = 19800000"

definition dayIn :: "int \<Rightarrow> date \<Rightarrow> int" where
  "dayIn off t = (t + off) div msPerDay"

definition startOfDay :: "int \<Rightarrow> date \<Rightarrow> date" where
  "startOfDay off t = dayIn off t * msPerDay - off"

definition endOfDay :: "int \<Rightarrow> date \<Rightarrow> date" where
  "endOfDay off t = startOfDay off t + msPerDay - 1"

section \<open>Queries on the Entry collection\<close>

text \<open>
  The filters the handlers build, as the data they are, and what the store does with them.
  An object with several keys, like \<open>$and\<close>, is \<open>Both\<close>; \<open>$or\<close> is \<open>Either\<close>.
\<close>

datatype cond =
    Always
  | VisibleIs bool
  | CustomerRegex string
  | ReceiptNoExists bool
  | ReceiptNoIs "int option"
  | StatusIs string
  | StatusNe string
  | ExpectedBetween date date
  | CreatedBetween date date
  | CreatedFrom date
  | Both cond cond
  | Either cond cond

text \<open>
  Modelled from the spec: how the store compares a stored \<open>receiptNo\<close> with the number
  of a query is fixed by the schema type of that path, declared in models/NewEntry and not in
  src. Section 4.2 of the specification has the receipt number matched by exact numeric
  equality: the number that the stored digits denote is the number of the query. NaN
  (\<open>None\<close>) equals nothing.
\<close>

definition receiptValue :: "string \<Rightarrow> int option" where
  "receiptValue r = (if r \<noteq> [] \<and> list_all isDigit r then Some (int (decimalValue r)) else None)"

definition receiptNoEq :: "string \<Rightarrow> int option \<Rightarrow> bool" where
  "receiptNoEq r n = (case n of None \<Rightarrow> False | Some k \<Rightarrow> receiptValue r = Some k)"

fun matches :: "db \<Rightarrow> entry \<Rightarrow> cond \<Rightarrow> bool" where
  "matches d e Always = True"
| "matches d e (VisibleIs b) = (visible e = b)"
| "matches d e (CustomerRegex q) = (case regexI d q of None \<Rightarrow> False | Some m \<Rightarrow> m (customer e))"
| "matches d e (ReceiptNoExists b) = b"
| "matches d e (ReceiptNoIs n) = receiptNoEq (receiptNo e) n"
| "matches d e (StatusIs s) = (status e = Some s)"
| "matches d e (StatusNe s) = (status e \<noteq> Some s)"
| "matches d e (ExpectedBetween lo hi) =
     (case expectedDelivery (pickupAndDelivery e) of None \<Rightarrow> False | Some t \<Rightarrow> lo \<le> t \<and> t \<le> hi)"
| "matches d e (CreatedBetween lo hi) = (lo \<le> createdAt e \<and> createdAt e \<le> hi)"
| "matches d e (CreatedFrom lo) = (lo \<le> createdAt e)"
| "matches d e (Both a b) = (matches d e a \<and> matches d e b)"
| "matches d e (Either a b) = (matches d e a \<or> matches d e b)"

definition findEntries :: "db \<Rightarrow> cond \<Rightarrow> entry list" where
  "findEntries d c = filter (\<lambda>e. matches d e c) (entries d)"

definition countDocuments :: "db \<Rightarrow> cond \<Rightarrow> nat" where
  "countDocuments d c = length (findEntries d c)"

text \<open>
  \<open>.sort({ createdAt: -1 })\<close>: newest first. The store leaves the order of documents with
  equal time stamps open; here they keep their order in the collection.
\<close>

definition newestFirst :: "entry list \<Rightarrow> entry list" where
  "newestFirst es = sort_key (\<lambda>e. - createdAt e) es"

definition findById :: "db \<Rightarrow> objectId \<Rightarrow> entry option" where
  "findById d i = find (\<lambda>e. ident e = i) (entries d)"

text \<open>Writing back the document that \<open>findById\<close> returned: the first one with that id.\<close>

fun replaceById :: "objectId \<Rightarrow> entry \<Rightarrow> entry list \<Rightarrow> entry list" where
  "replaceById i e' [] = []"
| "replaceById i e' (e # es) = (if ident e = i then e' # es else e # replaceById i e' es)"

fun removeById :: "objectId \<Rightarrow> entry list \<Rightarrow> entry list" where
  "removeById i [] = []"
| "removeById i (e # es) = (if ident e = i then es else e # removeById i es)"

text \<open>\<open>showAll === "true" ? {} : { visible: true }\<close>\<close>

definition visibilityFilter :: "string option \<Rightarrow> cond" where
  "visibilityFilter showAll = (if showAll = Some ''true'' then Always else VisibleIs True)"

section \<open>The statistics middleware\<close>

text \<open>
  Modelled from the spec: manualUpdateStats (middleware/entryStatsMiddleware) is not in src.
  Section 4.4 of the specification: after every create, update and delete it recomputes the
  singleton summary of the counts per status and of today's expected and received entries
  and persists it; the recompute is best-effort, and when it fails the failure is logged
  and swallowed. So the call always returns normally (\<open>Inr\<close>): with the summary
  replaced, or with a line in the log and the old summary left as it was. The recompute has
  no caller to ask for hidden entries, and section 3 excludes them from aggregations by
  default, so it counts the visible ones.
\<close>

definition countStatus :: "string \<Rightarrow> entry list \<Rightarrow> nat" where
  "countStatus s es = length (filter (\<lambda>e. status e = Some s) es)"

definition recompute :: "date \<Rightarrow> db \<Rightarrow> entryStat" where
  "recompute t d =
     (let es = filter visible (entries d); lo = startOfDay kolkata t; hi = endOfDay kolkata t
      in \<lparr>statPending = countStatus ''pending'' es,
          statCollected = countStatus ''collected'' es,
          statProcessedAndPacked = countStatus ''processedAndPacked'' es,
          statDelivered = countStatus ''delivered'' es,
          statTodayExpected =
            countDocuments d (Both (VisibleIs True) (Both (ExpectedBetween lo hi) (StatusNe ''delivered''))),
          statTodayReceived = countDocuments d (Both (VisibleIs True) (CreatedBetween lo hi))\<rparr>)"

definition manualUpdateStats :: "env \<Rightarrow> db \<Rightarrow> string + db" where
  "manualUpdateStats env d =
     (case throws env Recompute of
        Some m \<Rightarrow> Inr (d\<lparr>serverLog := serverLog d @ [m]\<rparr>)
      | None \<Rightarrow> Inr (d\<lparr>entryStat := Some (recompute (now env) d)\<rparr>))"

section \<open>createNewentry\<close>

record createBody =
  bCustomer :: "string option"
  bCustomerId :: "objectId option"
  bProducts :: "product list option"
  bCharges :: "charges option"
  bPickupAndDelivery :: "pickup option"
  bExpectedDeliveryDate :: "date option"
  bDiscount :: jsval
  bRemarks :: jsval

definition required :: string where
  "required = ''Customer, customerId and expected delivery date are required''"

definition typeError :: string where
  "typeError =
     ''Cannot read properties of undefined (reading '' @ [CHR 0x27] @ ''expectedDeliveryDate''
       @ [CHR 0x27] @ '')''"

text \<open>
  \<open>new Entry({...})\<close>. Modelled from the spec: the defaults of the schema (models/NewEntry,
  not in src) for the fields the handler does not pass, section 3 of the specification:
  \<open>status\<close> pending, \<open>visible\<close> true, \<open>createdAt\<close> assigned by the store.
\<close>

definition newEntry ::
  "env \<Rightarrow> createBody \<Rightarrow> string \<Rightarrow> objectId \<Rightarrow> customerDoc \<Rightarrow> pickup \<Rightarrow> string \<Rightarrow> entry" where
  "newEntry env b name cid c pd r =
     \<lparr>ident = freshId env,
      customer = name,
      customerPhone = phone c,
      customerId = cid,
      receiptNo = r,
      discount = js_or (bDiscount b) (JNum 0),
      remarks = js_or (bRemarks b) (JStr []),
      expectedDeliveryDate = bExpectedDeliveryDate b,
      products = defaultProductTax (bProducts b),
      charges = defaultTaxAmount (bCharges b),
      pickupAndDelivery = pd,
      status = Some ''pending'',
      visible = True,
      createdAt = now env\<rparr>"

text \<open>
  The handler, lines 64 to 150. The result is the response and the store as the request
  leaves it. Every \<open>await\<close> that rejects ends in the \<open>catch\<close> block: status 400 with
  the error's message.
\<close>

definition createNewentry :: "env \<Rightarrow> db \<Rightarrow> createBody \<Rightarrow> response \<times> db" where
  "createNewentry env d b =
     (case bCustomer b of
        None \<Rightarrow> (reply 400 False required NoData, d)
      | Some name \<Rightarrow>
     (if name = [] then (reply 400 False required NoData, d) else
     (case bCustomerId b of
        None \<Rightarrow> (reply 400 False required NoData, d)
      | Some cid \<Rightarrow>
     (case bPickupAndDelivery b of
        None \<Rightarrow> (reply 400 False typeError NoData, d)
      | Some pd \<Rightarrow>
     (if expectedDelivery pd = None then (reply 400 False required NoData, d) else
     (case throws env FindCustomer of
        Some m \<Rightarrow> (reply 400 False m NoData, d)
      | None \<Rightarrow>
     (case customers d cid of
        None \<Rightarrow> (reply 404 False ''Customer not found'' NoData, d)
      | Some c \<Rightarrow>
     (case throws env FindReceipt of
        Some m \<Rightarrow> (reply 400 False m NoData, d)
      | None \<Rightarrow>
     (case currentReceiptNumber d of
        None \<Rightarrow> (reply 500 False ''Receipt number initialization failed'' NoData, d)
      | Some n \<Rightarrow>
     (let r = padStart 4 (CHR ''0'') (js_String n) in
     (case throws env SaveReceipt of
        Some m \<Rightarrow> (reply 400 False m NoData, d)
      | None \<Rightarrow>
     (let d1 = d\<lparr>currentReceiptNumber := Some (js_add1 n)\<rparr>;
          e = newEntry env b name cid c pd r in
     (case throws env SaveEntry of
        Some m \<Rightarrow> (reply 400 False m NoData, d1)
      | None \<Rightarrow>
     (let d2 = d1\<lparr>entries := entries d1 @ [e]\<rparr> in
     (case manualUpdateStats env d2 of
        Inl m \<Rightarrow> (reply 400 False m NoData, d2)
      | Inr d3 \<Rightarrow>
          (reply 201 True ''Entry created successfully'' (EntryData e), d3))))))))))))))))"

subsection \<open>The handler between its awaits\<close>

text \<open>
  One server process runs many requests: a request runs alone from one \<open>await\<close> to the
  next, and at each \<open>await\<close> any other request may run. A task is a request of
  createNewentry stopped at an \<open>await\<close>, with the local variables it holds there; a step
  completes the awaited call against the store and runs the handler to its next
  \<open>await\<close>. After \<open>ReceiptNumber.findOne()\<close> the task holds the receipt number it has
  formatted and the incremented \<open>currentReceiptNumber\<close> of its own copy of the record,
  which \<open>receiptRecord.save()\<close> then writes.
\<close>

datatype task =
    Start createBody
  | AwaitCustomer createBody string objectId pickup
  | AwaitReceipt createBody string objectId customerDoc pickup
  | AwaitReceiptSave createBody string objectId customerDoc pickup string nat
  | AwaitEntrySave entry
  | AwaitStats entry
  | Finished response

fun step :: "env \<Rightarrow> db \<Rightarrow> task \<Rightarrow> task \<times> db" where
  "step env d (Start b) =
     (case bCustomer b of
        None \<Rightarrow> (Finished (reply 400 False required NoData), d)
      | Some name \<Rightarrow>
     (if name = [] then (Finished (reply 400 False required NoData), d) else
     (case bCustomerId b of
        None \<Rightarrow> (Finished (reply 400 False required NoData), d)
      | Some cid \<Rightarrow>
     (case bPickupAndDelivery b of
        None \<Rightarrow> (Finished (reply 400 False typeError NoData), d)
      | Some pd \<Rightarrow>
     (if expectedDelivery pd = None then (Finished (reply 400 False required NoData), d)
      else (AwaitCustomer b name cid pd, d))))))"
| "step env d (AwaitCustomer b name cid pd) =
     (case throws env FindCustomer of
        Some m \<Rightarrow> (Finished (reply 400 False m NoData), d)
      | None \<Rightarrow>
     (case customers d cid of
        None \<Rightarrow> (Finished (reply 404 False ''Customer not found'' NoData), d)
      | Some c \<Rightarrow> (AwaitReceipt b name cid c pd, d)))"
| "step env d (AwaitReceipt b name cid c pd) =
     (case throws env FindReceipt of
        Some m \<Rightarrow> (Finished (reply 400 False m NoData), d)
      | None \<Rightarrow>
     (case currentReceiptNumber d of
        None \<Rightarrow> (Finished (reply 500 False ''Receipt number initialization failed'' NoData), d)
      | Some n \<Rightarrow>
          (AwaitReceiptSave b name cid c pd (padStart 4 (CHR ''0'') (js_String n)) (js_add1 n), d)))"
| "step env d (AwaitReceiptSave b name cid c pd r n') =
     (case throws env SaveReceipt of
        Some m \<Rightarrow> (Finished (reply 400 False m NoData), d)
      | None \<Rightarrow>
          (AwaitEntrySave (newEntry env b name cid c pd r), d\<lparr>currentReceiptNumber := Some n'\<rparr>))"
| "step env d (AwaitEntrySave e) =
     (case throws env SaveEntry of
        Some m \<Rightarrow> (Finished (reply 400 False m NoData), d)
      | None \<Rightarrow> (AwaitStats e, d\<lparr>entries := entries d @ [e]\<rparr>))"
| "step env d (AwaitStats e) =
     (case manualUpdateStats env d of
        Inl m \<Rightarrow> (Finished (reply 400 False m NoData), d)
      | Inr d' \<Rightarrow> (Finished (reply 201 True ''Entry created successfully'' (EntryData e)), d'))"
| "step env d (Finished r) = (Finished r, d)"

text \<open>
  The server: the store and the requests in flight, each with its own inputs. A schedule
  names, step by step, the request that runs next.
\<close>

type_synonym server = "db \<times> (env \<times> task) list"

definition stepAt :: "server \<Rightarrow> nat \<Rightarrow> server" where
  "stepAt sv i =
     (let d = fst sv; ts = snd sv
      in if i < length ts
         then (let env = fst (ts ! i); r = step env d (snd (ts ! i))
               in (snd r, ts[i := (env, fst r)]))
         else sv)"

definition runSchedule :: "nat list \<Rightarrow> server \<Rightarrow> server" where
  "runSchedule sched sv = foldl stepAt sv sched"

text \<open>The receipt number a task has been handed, once it holds one.\<close>

fun receiptOf :: "task \<Rightarrow> string option" where
  "receiptOf (AwaitReceiptSave b name cid c pd r n') = Some r"
| "receiptOf (AwaitEntrySave e) = Some (receiptNo e)"
| "receiptOf (AwaitStats e) = Some (receiptNo e)"
| "receiptOf (Finished r) = (case payload r of EntryData e \<Rightarrow> Some (receiptNo e) | _ \<Rightarrow> None)"
| "receiptOf _ = None"

section \<open>getAllEntry\<close>


section \<open>updateEntry\<close>

text \<open>
  The fields of the request body that the model carries; each may be absent. The handler
  adds up to three keys of its own, the dotted paths into \<open>pickupAndDelivery\<close>, before it
  hands the body to \<open>findByIdAndUpdate\<close>.
\<close>

record updateBody =
  uCustomer :: "string option"
  uProducts :: "product list option"
  uCharges :: "charges option"
  uStatus :: "string option"
  uPickupAndDelivery :: "pickup option"
  uVisible :: "bool option"

record updateDoc = updateBody +
  setDeliveryDate :: "date option"
  setPickupDate :: "date option"
  setProcessedAndPackedDate :: "date option"

definition stampStatus :: "env \<Rightarrow> updateBody \<Rightarrow> updateDoc" where
  "stampStatus env b =
     \<lparr>uCustomer = uCustomer b,
      uProducts = defaultProductTax (uProducts b),
      uCharges = defaultTaxAmount (uCharges b),
      uStatus = uStatus b,
      uPickupAndDelivery = uPickupAndDelivery b,
      uVisible = uVisible b,
      setDeliveryDate = (if uStatus b = Some ''delivered'' then Some (now env) else None),
      setPickupDate = (if uStatus b = Some ''collected'' then Some (now env) else None),
      setProcessedAndPackedDate =
        (if uStatus b = Some ''processedAndPacked'' then Some (now env) else None)\<rparr>"

text \<open>\<open>$set\<close> of every key of the update: a key that is absent leaves its path alone.\<close>

definition orKeep :: "'a option \<Rightarrow> 'a \<Rightarrow> 'a" where
  "orKeep new old = (case new of None \<Rightarrow> old | Some v \<Rightarrow> v)"

definition applyUpdate :: "updateDoc \<Rightarrow> entry \<Rightarrow> entry" where
  "applyUpdate u e =
     (let pd = orKeep (uPickupAndDelivery u) (pickupAndDelivery e)
      in e\<lparr>customer := orKeep (uCustomer u) (customer e),
           products := (case uProducts u of None \<Rightarrow> products e | Some ps \<Rightarrow> Some ps),
           charges := (case uCharges u of None \<Rightarrow> charges e | Some c \<Rightarrow> Some c),
           status := (case uStatus u of None \<Rightarrow> status e | Some s \<Rightarrow> Some s),
           visible := orKeep (uVisible u) (visible e),
           pickupAndDelivery :=
             pd\<lparr>deliveryDate := (case setDeliveryDate u of None \<Rightarrow> deliveryDate pd | Some t \<Rightarrow> Some t),
                pickupDate := (case setPickupDate u of None \<Rightarrow> pickupDate pd | Some t \<Rightarrow> Some t),
                processedAndPackedDate :=
                  (case setProcessedAndPackedDate u of
                     None \<Rightarrow> processedAndPackedDate pd | Some t \<Rightarrow> Some t)\<rparr>\<rparr>)"

text \<open>
  \<open>Entry.findByIdAndUpdate(id, body, { new: true, runValidators: true })\<close>: the store
  rejects the update, or finds no document, or returns the document as updated.
\<close>

definition findByIdAndUpdate ::
  "env \<Rightarrow> db \<Rightarrow> objectId \<Rightarrow> updateDoc \<Rightarrow> string + (entry option \<times> db)" where
  "findByIdAndUpdate env d i u =
     (case throws env UpdateEntry of
        Some m \<Rightarrow> Inl m
      | None \<Rightarrow>
         (case findById d i of
            None \<Rightarrow> Inr (None, d)
          | Some e \<Rightarrow>
              Inr (Some (applyUpdate u e), d\<lparr>entries := replaceById i (applyUpdate u e) (entries d)\<rparr>)))"

definition updateEntry :: "env \<Rightarrow> db \<Rightarrow> objectId \<Rightarrow> updateBody \<Rightarrow> response \<times> db" where
  "updateEntry env d i b =
     (case findByIdAndUpdate env d i (stampStatus env b) of
        Inl m \<Rightarrow> (reply 400 False m NoData, d)
      | Inr (None, d1) \<Rightarrow> (reply 404 False ''Entry not found'' NoData, d1)
      | Inr (Some e, d1) \<Rightarrow>
         (case manualUpdateStats env d1 of
            Inl m \<Rightarrow> (reply 400 False m NoData, d1)
          | Inr d2 \<Rightarrow> (reply 200 True ''Entry updated successfully'' (EntryData e), d2)))"

section \<open>deleteEntry\<close>

definition deleteEntry :: "env \<Rightarrow> db \<Rightarrow> objectId \<Rightarrow> response \<times> db" where
  "deleteEntry env d i =
     (case throws env DeleteEntry of
        Some m \<Rightarrow> (reply 500 False m NoData, d)
      | None \<Rightarrow>
         (case findById d i of
            None \<Rightarrow> (reply 404 False ''Entry Not found'' NoData, d)
          | Some e \<Rightarrow>
             (let d1 = d\<lparr>entries := removeById i (entries d)\<rparr>
              in case manualUpdateStats env d1 of
                   Inl m \<Rightarrow> (reply 500 False m NoData, d1)
                 | Inr d2 \<Rightarrow> (reply 200 True ''Entry deleted successfully'' NoData, d2))))"

section \<open>getPaginatedEntries\<close>


text \<open>\<open>Math.ceil(a / b)\<close> for integers, \<open>b\<close> not 0.\<close>

definition ceilDiv :: "int \<Rightarrow> int \<Rightarrow> int" where
  "ceilDiv a b = - ((- a) div b)"

text \<open>
  \<open>.skip(k).limit(n)\<close> on a sorted result. The store refuses a negative skip; the driver
  sends a negative limit as its absolute value.
\<close>

definition badSkip :: string where
  "badSkip = ''Skip value must be non-negative''"

definition page :: "int \<Rightarrow> int \<Rightarrow> entry list \<Rightarrow> string + entry list" where
  "page k n es = (if k < 0 then Inl badSkip else Inr (take (nat \<bar>n\<bar>) (drop (nat k) es)))"


section \<open>searchEntry\<close>

text \<open>
  Lines 321 to 357. The query fails, and the handler answers 500, when the store call
  rejects or the store refuses the pattern.
\<close>

definition searchEntry :: "env \<Rightarrow> db \<Rightarrow> string option \<Rightarrow> string option \<Rightarrow> response" where
  "searchEntry env d qParam showAll =
     (case qParam of
        None \<Rightarrow> reply 400 False ''Search query is required'' NoData
      | Some q \<Rightarrow>
         (if trim q = [] then reply 400 False ''Search query is required'' NoData
          else
           (let query =
                  Both (visibilityFilter showAll)
                    (Either (CustomerRegex q)
                       (if js_isNaN q then ReceiptNoExists False else ReceiptNoIs (js_parseInt q)))
            in if throws env FindEntries \<noteq> None \<or> regexI d q = None
               then reply 500 False ''Internal server error'' NoData
               else if findEntries d query = []
               then reply 404 False ''No entries found'' NoData
               else \<lparr>code = 200, success = True, message = None,
                     payload = EntriesData (findEntries d query)\<rparr>)))"

section \<open>getRecentOrdersCount\<close>

text \<open>
  Lines 360 to 475, the \<open>totalCount\<close> and \<open>weeklyData\<close> facets; the yearly and monthly
  facets are not carried. \<open>$sum\<close> adds the numbers it finds and skips everything else.
\<close>

definition amountOf :: "entry \<Rightarrow> rat" where
  "amountOf e =
     (case charges e of
        None \<Rightarrow> 0
      | Some c \<Rightarrow> (case totalAmount c of JNum r \<Rightarrow> r | _ \<Rightarrow> 0))"

text \<open>
  The \<open>weeklyData\<close> facet: \<open>$match\<close> from \<open>new Date(year, month, day - 6)\<close>, which is
  midnight on the server's own clock six days back, then \<open>$group\<close> by
  \<open>$dateToString\<close> without a time zone, which is the day in UTC.
\<close>

definition weeklyFacet :: "env \<Rightarrow> db \<Rightarrow> (int \<times> rat \<times> nat) list" where
  "weeklyFacet env d =
     (let es = findEntries d (CreatedFrom (startOfDay (serverOffset env) (now env) - 6 * msPerDay));
          keys = remdups (map (\<lambda>e. dayIn 0 (createdAt e)) es)
      in map (\<lambda>k. (k, sum_list (map amountOf (filter (\<lambda>e. dayIn 0 (createdAt e) = k) es)),
                      length (filter (\<lambda>e. dayIn 0 (createdAt e) = k) es))) keys)"

text \<open>
  The loop \<open>for (let i = 6; i >= 0; i--)\<close>: the date \<open>i\<close> days before now, named by
  \<open>toISOString().split("T")[0]\<close>, which is its day in UTC, and looked up in the map.
\<close>

definition weekRowAt :: "env \<Rightarrow> (int \<rightharpoonup> rat \<times> nat) \<Rightarrow> int \<Rightarrow> weekRow" where
  "weekRowAt env weeklyMap i =
     (let dateStr = dayIn 0 (now env - i * msPerDay)
      in case weeklyMap dateStr of
           None \<Rightarrow> \<lparr>wDate = dateStr, wTotalSales = 0, wOrderCount = 0\<rparr>
         | Some item \<Rightarrow> \<lparr>wDate = dateStr, wTotalSales = fst item, wOrderCount = snd item\<rparr>)"

definition getRecentOrdersCount :: "env \<Rightarrow> db \<Rightarrow> response" where
  "getRecentOrdersCount env d =
     (case throws env Aggregate of
        Some m \<Rightarrow> reply 500 False ''Server Error'' NoData
      | None \<Rightarrow>
          \<lparr>code = 200, success = True, message = None,
           payload = RecentData (length (entries d))
                       (map (weekRowAt env (map_of (weeklyFacet env d))) [6, 5, 4, 3, 2, 1, 0])\<rparr>)"

section \<open>getPendingDeliveries\<close>

record statusCounts =
  pending :: nat
  collected :: nat
  processedAndPacked :: nat
  delivered :: nat

text \<open>\<open>$group\<close> by \<open>$status\<close> with a count: one item per status found.\<close>

definition groupByStatus :: "entry list \<Rightarrow> (string option \<times> nat) list" where
  "groupByStatus es =
     map (\<lambda>s. (s, length (filter (\<lambda>e. status e = s) es))) (remdups (map status es))"

definition hasOwnProperty :: "string \<Rightarrow> bool" where
  "hasOwnProperty k = (k \<in> set [''pending'', ''collected'', ''processedAndPacked'', ''delivered''])"

definition setCount :: "string \<Rightarrow> nat \<Rightarrow> statusCounts \<Rightarrow> statusCounts" where
  "setCount k n sc =
     (if k = ''pending'' then sc\<lparr>pending := n\<rparr>
      else if k = ''collected'' then sc\<lparr>collected := n\<rparr>
      else if k = ''processedAndPacked'' then sc\<lparr>processedAndPacked := n\<rparr>
      else if k = ''delivered'' then sc\<lparr>delivered := n\<rparr>
      else sc)"

text \<open>
  \<open>counts.forEach((item) => { if (item._id && statusCounts.hasOwnProperty(item._id))
  statusCounts[item._id] = item.count; })\<close>
\<close>

definition tally :: "(string option \<times> nat) list \<Rightarrow> statusCounts" where
  "tally counts =
     foldl (\<lambda>sc item.
              case fst item of
                None \<Rightarrow> sc
              | Some k \<Rightarrow> if k \<noteq> [] \<and> hasOwnProperty k then setCount k (snd item) sc else sc)
       \<lparr>pending = 0, collected = 0, processedAndPacked = 0, delivered = 0\<rparr> counts"

definition selectFields :: "entry \<Rightarrow> orderDoc" where
  "selectFields e =
     \<lparr>oIdent = ident e, oCustomer = customer e, oCustomerId = customerId e,
      oReceiptNo = receiptNo e, oStatus = status e, oCharges = charges e,
      oPickupAndDelivery = pickupAndDelivery e, oCreatedAt = createdAt e\<rparr>"

text \<open>The \<open>switch (type)\<close>; \<open>None\<close> is its \<open>default\<close> branch.\<close>

definition typeQuery :: "cond \<Rightarrow> date \<Rightarrow> date \<Rightarrow> string \<Rightarrow> cond option" where
  "typeQuery vis lo hi ty =
     (if ty = ''pending'' then Some (Both vis (StatusIs ''pending''))
      else if ty = ''collected'' then Some (Both vis (StatusIs ''collected''))
      else if ty = ''processedAndPacked'' then Some (Both vis (StatusIs ''processedAndPacked''))
      else if ty = ''delivered'' then Some (Both vis (StatusIs ''delivered''))
      else if ty = ''todayExpected''
        then Some (Both vis (Both (ExpectedBetween lo hi) (StatusNe ''delivered'')))
      else if ty = ''todayReceived'' then Some (Both vis (CreatedBetween lo hi))
      else None)"

definition pendingSummary :: "env \<Rightarrow> db \<Rightarrow> string option \<Rightarrow> response" where
  "pendingSummary env d showAll =
     (let vis = visibilityFilter showAll;
          todayString = dayIn kolkata (now env);
          startOfToday = startOfDay kolkata (now env);
          endOfToday = endOfDay kolkata (now env)
      in case throws env Aggregate of
           Some m \<Rightarrow> reply 500 False ''Server Error'' NoData
         | None \<Rightarrow>
            (case throws env CountEntries of
               Some m \<Rightarrow> reply 500 False ''Server Error'' NoData
             | None \<Rightarrow>
                (let counts = groupByStatus (findEntries d vis);
                     todayExpected =
                       countDocuments d
                         (Both vis (Both (ExpectedBetween startOfToday endOfToday) (StatusNe ''delivered'')));
                     todayReceived = countDocuments d (Both vis (CreatedBetween startOfToday endOfToday));
                     sc = tally counts
                 in \<lparr>code = 200, success = True, message = None,
                     payload = SummaryData
                       \<lparr>sPending = pending sc, sCollected = collected sc,
                        sProcessedAndPacked = processedAndPacked sc, sDelivered = delivered sc,
                        sTodayExpected = todayExpected, sTodayReceived = todayReceived,
                        sDate = todayString,
                        sTotal = pending sc + collected sc + delivered sc + processedAndPacked sc\<rparr>\<rparr>)))"

text \<open>
  \<open>const { type, page = 1, showAll } = req.query; const pageNum = parseInt(page)\<close>;
  \<open>None\<close> is NaN.
\<close>

definition pageNum :: "string option \<Rightarrow> int option" where
  "pageNum pageParam = (case pageParam of None \<Rightarrow> Some 1 | Some p \<Rightarrow> js_parseInt p)"

definition pendingOfType :: "env \<Rightarrow> db \<Rightarrow> string \<Rightarrow> string option \<Rightarrow> string option \<Rightarrow> response" where
  "pendingOfType env d ty pageParam showAll =
     (let vis = visibilityFilter showAll;
          todayString = dayIn kolkata (now env);
          startOfToday = startOfDay kolkata (now env);
          endOfToday = endOfDay kolkata (now env)
      in case typeQuery vis startOfToday endOfToday ty of
           None \<Rightarrow> reply 400 False ''Invalid type parameter'' NoData
         | Some query \<Rightarrow>
            (case throws env CountEntries of
               Some m \<Rightarrow> reply 500 False ''Server Error'' NoData
             | None \<Rightarrow>
            (case throws env FindEntries of
               Some m \<Rightarrow> reply 500 False ''Server Error'' NoData
             | None \<Rightarrow>
            (case pageNum pageParam of
               None \<Rightarrow> reply 500 False ''Server Error'' NoData
             | Some pn \<Rightarrow>
            (case page ((pn - 1) * 5) 5 (newestFirst (findEntries d query)) of
               Inl m \<Rightarrow> reply 500 False ''Server Error'' NoData
             | Inr es \<Rightarrow>
                 \<lparr>code = 200, success = True, message = None,
                  payload = OrdersData ty (countDocuments d query) pn
                              (ceilDiv (int (countDocuments d query)) 5)
                              (if sublist ''today'' ty then Some todayString else None)
                              (map selectFields es)\<rparr>)))))"

text \<open>Lines 478 to 620: without a \<open>type\<close> the summary, with one the page of that type.\<close>

definition getPendingDeliveries ::
  "env \<Rightarrow> db \<Rightarrow> string option \<Rightarrow> string option \<Rightarrow> string option \<Rightarrow> response" where
  "getPendingDeliveries env d typeParam pageParam showAll =
     (case typeParam of
        None \<Rightarrow> pendingSummary env d showAll
      | Some ty \<Rightarrow>
          if ty = [] then pendingSummary env d showAll
          else pendingOfType env d ty pageParam showAll)"

section \<open>toggleVisibility\<close>

definition toggleVisibility :: "env \<Rightarrow> db \<Rightarrow> objectId \<Rightarrow> response \<times> db" where
  "toggleVisibility env d i =
     (case throws env FindEntry of
        Some m \<Rightarrow> (reply 500 False ''Server Error'' NoData, d)
      | None \<Rightarrow>
         (case findById d i of
            None \<Rightarrow> (reply 404 False ''Entry not found'' NoData, d)
          | Some e \<Rightarrow>
             (let e' = e\<lparr>visible := \<not> visible e\<rparr>
              in case throws env SaveEntry of
                   Some m \<Rightarrow> (reply 500 False ''Server Error'' NoData, d)
                 | None \<Rightarrow>
                     (reply 200 True
                        (if visible e' then ''Entry is now visible'' else ''Entry is now hidden'')
                        (ToggleData (ident e') (visible e')),
                      d\<lparr>entries := replaceById i e' (entries d)\<rparr>))))"

section \<open>Notions used to state the properties\<close>

text \<open>
  The entries a read is about: all of them when the caller passes \<open>showAll=true\<close>, the
  visible ones otherwise.
\<close>

definition inScope :: "string option \<Rightarrow> db \<Rightarrow> entry list" where
  "inScope showAll d = (if showAll = Some ''true'' then entries d else filter visible (entries d))"

text \<open>\<open>q\<close> occurs in \<open>s\<close> as a substring, letter case ignored.\<close>

definition containsCI :: "string \<Rightarrow> string \<Rightarrow> bool" where
  "containsCI q s = sublist (map toLower q) (map toLower s)"

text \<open>A query string without any regular-expression metacharacter.\<close>

definition plainText :: "string \<Rightarrow> bool" where
  "plainText q =
     list_all (\<lambda>c. c \<notin> set metaChars \<and> c \<noteq> CHR ''.'' \<and> (of_char c :: nat) < 128) q"

text \<open>
  The number that a decimal literal denotes (a sign, digits, a fraction, an exponent), as
  the conversion of a string to a number reads it.
\<close>

definition decimalLiteralValue :: "string \<Rightarrow> rat" where
  "decimalLiteralValue t =
     (let u = stripSign t;
          i = takeWhile isDigit u;
          r1 = dropWhile isDigit u;
          f = (case r1 of [] \<Rightarrow> [] | c # r \<Rightarrow> if c = CHR ''.'' then takeWhile isDigit r else []);
          r2 = (case r1 of [] \<Rightarrow> [] | c # r \<Rightarrow> if c = CHR ''.'' then dropWhile isDigit r else r1);
          ex = (case r2 of [] \<Rightarrow> 0
                | e # r' \<Rightarrow> if r' \<noteq> [] \<and> hd r' = CHR ''-''
                            then - int (decimalValue (stripSign r'))
                            else int (decimalValue (stripSign r')));
          mant = of_nat (decimalValue (i @ f)) / 10 ^ length f;
          v = (if ex < 0 then mant / 10 ^ nat (- ex) else mant * 10 ^ nat ex)
      in if t \<noteq> [] \<and> hd t = CHR ''-'' then - v else v)"

text \<open>One of the four statuses that the summary counts.\<close>

definition knownStatus :: "entry \<Rightarrow> bool" where
  "knownStatus e =
     (status e \<in> set [Some ''pending'', Some ''collected'', Some ''processedAndPacked'', Some ''delivered''])"

text \<open>A request like \<open>env\<close> whose statistics recompute fails with message \<open>m\<close>, or succeeds.\<close>

definition recomputeFailing :: "string \<Rightarrow> env \<Rightarrow> env" where
  "recomputeFailing m env = env\<lparr>throws := (throws env)(Recompute := Some m)\<rparr>"

definition recomputeWorking :: "env \<Rightarrow> env" where
  "recomputeWorking env = env\<lparr>throws := (throws env)(Recompute := None)\<rparr>"

section \<open>A small shop, for running the handlers\<close>

definition anna :: entry where
  "anna =
     \<lparr>ident = 1, customer = ''Anna Rao'', customerPhone = ''9876543210'', customerId = 1,
      receiptNo = ''0005'', discount = JNum 0, remarks = JStr [],
      expectedDeliveryDate = Some 950000000,
      products = Some [\<lparr>productName = ''Shirt'', tax = JNum 5\<rparr>],
      charges = Some \<lparr>taxAmount = JNum 5, totalAmount = JNum 105\<rparr>,
      pickupAndDelivery =
        \<lparr>expectedDelivery = Some 950000000, pickupDate = None,
         processedAndPackedDate = None, deliveryDate = None\<rparr>,
      status = Some ''pending'', visible = True, createdAt = 849600000\<rparr>"

definition bela :: entry where
  "bela =
     \<lparr>ident = 2, customer = ''xyz'', customerPhone = ''9123456780'', customerId = 2,
      receiptNo = ''0006'', discount = JNum 0, remarks = JStr [],
      expectedDeliveryDate = Some 900000000,
      products = Some [],
      charges = Some \<lparr>taxAmount = JNum 0, totalAmount = JNum 500\<rparr>,
      pickupAndDelivery =
        \<lparr>expectedDelivery = Some 900000000, pickupDate = Some 880000000,
         processedAndPackedDate = None, deliveryDate = None\<rparr>,
      status = Some ''collected'', visible = False, createdAt = 870000000\<rparr>"

definition cara :: entry where
  "cara =
     \<lparr>ident = 3, customer = ''abcd corp'', customerPhone = ''9000000001'', customerId = 1,
      receiptNo = ''0003'', discount = JNum 0, remarks = JStr [],
      expectedDeliveryDate = None,
      products = None,
      charges = None,
      pickupAndDelivery =
        \<lparr>expectedDelivery = None, pickupDate = None,
         processedAndPackedDate = None, deliveryDate = None\<rparr>,
      status = Some ''cancelled'', visible = True, createdAt = 899000000\<rparr>"

definition shop :: db where
  "shop =
     \<lparr>entries = [anna, bela, cara],
      customers = (\<lambda>i. if i = 1 then Some \<lparr>phone = ''9876543210''\<rparr>
                       else if i = 2 then Some \<lparr>phone = ''9123456780''\<rparr> else None),
      currentReceiptNumber = Some 7,
      entryStat = None,
      serverLog = [],
      storeRegex = (\<lambda>q. None)\<rparr>"

text \<open>The same shop with its counter at \<open>2 ^ 53\<close>.\<close>

definition shopAtLimit :: db where
  "shopAtLimit = shop\<lparr>currentReceiptNumber := Some 9007199254740992\<rparr>"

definition request :: "date \<Rightarrow> objectId \<Rightarrow> env" where
  "request t i = \<lparr>now = t, serverOffset = 0, freshId = i, throws = (\<lambda>s. None)\<rparr>"

definition sareeOrder :: createBody where
  "sareeOrder =
     \<lparr>bCustomer = Some ''Anna Rao'', bCustomerId = Some 1,
      bProducts = Some [\<lparr>productName = ''Saree'', tax = JUndefined\<rparr>,
                        \<lparr>productName = ''Coat'', tax = JNum 12\<rparr>],
      bCharges = Some \<lparr>taxAmount = JUndefined, totalAmount = JNum 300\<rparr>,
      bPickupAndDelivery =
        Some \<lparr>expectedDelivery = Some 990000000, pickupDate = None,
              processedAndPackedDate = None, deliveryDate = None\<rparr>,
      bExpectedDeliveryDate = Some 990000000,
      bDiscount = JUndefined, bRemarks = JUndefined\<rparr>"

definition deliver :: updateBody where
  "deliver = \<lparr>uCustomer = None, uProducts = None, uCharges = None, uStatus = Some ''delivered'',
              uPickupAndDelivery = None, uVisible = None\<rparr>"

section \<open>Properties\<close>

subsection \<open>Receipt numbers\<close>

lemma digitOf_digit_char: "d < 10 \<Longrightarrow> digitOf (digit_char d) = d"
proof -
  assume "d < 10"
  then have "d = 0 \<or> d = 1 \<or> d = 2 \<or> d = 3 \<or> d = 4 \<or> d = 5 \<or> d = 6 \<or> d = 7 \<or> d = 8 \<or> d = 9"
    by arith
  then show ?thesis
    by (elim disjE) (simp_all add: digit_char_def digitOf_def)
qed

lemma decimalValue_snoc: "decimalValue (s @ [c]) = decimalValue s * 10 + digitOf c"
  by (simp add: decimalValue_def)

lemma decimalValue_js_String: "decimalValue (js_String n) = n"
proof (induction n rule: js_String.induct)
  case (1 n)
  show ?case
  proof (cases "n < 10")
    case True
    then show ?thesis by (subst js_String.simps) (simp add: decimalValue_def digitOf_digit_char)
  next
    case False
    then have "decimalValue (js_String n) = decimalValue (js_String (n div 10)) * 10 + digitOf (digit_char (n mod 10))"
      by (subst js_String.simps) (simp add: decimalValue_snoc)
    also have "\<dots> = (n div 10) * 10 + n mod 10"
      using 1 False by (simp add: digitOf_digit_char)
    finally show ?thesis by simp
  qed
qed

lemma decimalValue_zeros: "decimalValue (replicate k (CHR ''0'') @ s) = decimalValue s"
proof (induction k)
  case 0 show ?case by simp
next
  case (Suc k)
  have z: "digitOf (CHR ''0'') = 0" by (simp add: digitOf_def)
  have "\<And>a. foldl (\<lambda>a c. a * 10 + digitOf c) 0 (replicate k (CHR ''0'')) = 0"
    by (induction k) (simp_all add: z)
  then show ?case by (simp add: decimalValue_def z)
qed

lemma receipt_roundtrip: "decimalValue (padStart 4 (CHR ''0'') (js_String n)) = n"
  by (simp add: padStart_def decimalValue_zeros decimalValue_js_String)

lemma receipt_inj: "padStart 4 (CHR ''0'') (js_String n) = padStart 4 (CHR ''0'') (js_String m) \<Longrightarrow> n = m"
  by (metis receipt_roundtrip)

lemma length_js_String: "1 \<le> length (js_String n)"
  by (induction n rule: js_String.induct) (subst js_String.simps, simp)

lemma receipt_len: "4 \<le> length (padStart 4 (CHR ''0'') (js_String n))"
  by (simp add: padStart_def)

lemma manualUpdateStats_Inr:
  "\<exists>d'. manualUpdateStats env d = Inr d' \<and> entries d' = entries d
      \<and> currentReceiptNumber d' = currentReceiptNumber d \<and> customers d' = customers d
      \<and> storeRegex d' = storeRegex d"
  by (simp add: manualUpdateStats_def split: option.splits)

lemma createNewentry_201:
  assumes "createNewentry env d b = (r, d')" and "code r = 201"
  shows "\<exists>name cid pd c n d3.
           bCustomer b = Some name \<and> bCustomerId b = Some cid \<and> bPickupAndDelivery b = Some pd
         \<and> customers d cid = Some c \<and> currentReceiptNumber d = Some n
         \<and> throws env FindCustomer = None \<and> throws env FindReceipt = None
         \<and> throws env SaveReceipt = None \<and> throws env SaveEntry = None
         \<and> manualUpdateStats env
               (d\<lparr>currentReceiptNumber := Some (js_add1 n),
                  entries := entries d @ [newEntry env b name cid c pd (padStart 4 (CHR ''0'') (js_String n))]\<rparr>)
             = Inr d3
         \<and> d' = d3
         \<and> r = reply 201 True ''Entry created successfully''
                 (EntryData (newEntry env b name cid c pd (padStart 4 (CHR ''0'') (js_String n))))"
  using assms
  by (auto simp: createNewentry_def reply_def Let_def split: option.splits if_splits sum.splits)

text \<open>
  X4. Run alone, the six steps of a request are the handler: they end with its response
  and leave the store as it does.
\<close>

theorem createNewentry_steps:
  "runSchedule [0, 0, 0, 0, 0, 0] (d, [(env, Start b)]) =
     (snd (createNewentry env d b), [(env, Finished (fst (createNewentry env d b)))])"
  by (simp add: runSchedule_def stepAt_def createNewentry_def Let_def
           split: option.splits sum.splits)

text \<open>
  The counter's increment is exact below \<open>2 ^ 53\<close>, and no creation takes a counter
  that is at most \<open>2 ^ 53\<close> beyond it, or back.
\<close>

lemma js_add1_below: "n < 2 ^ 53 \<Longrightarrow> js_add1 n = n + 1"
  by (simp add: js_add1_def)

lemma js_add1_range: "n \<le> 2 ^ 53 \<Longrightarrow> js_add1 n \<le> 2 ^ 53"
  by (simp add: js_add1_def)

lemma counter_stays_in_range:
  assumes "createNewentry env d b = (r, d')" and "currentReceiptNumber d = Some n" and "n \<le> 2 ^ 53"
  shows "\<exists>m. currentReceiptNumber d' = Some m \<and> n \<le> m \<and> m \<le> 2 ^ 53"
proof -
  show ?thesis
    using assms
    by (auto simp: createNewentry_def Let_def manualUpdateStats_def js_add1_def
             split: option.splits if_splits)
qed

text \<open>
  C2, as amended. A creation that answers 201 and found the counter below \<open>2 ^ 53\<close>
  gave its entry the decimal digits of the counter's value, padded with zeros on the left to
  four characters at least (and read back as a number they give that value again). The
  counter is written back one higher before the entry is saved: run alone up to the entry's
  save, the request has left the store with the counter incremented and nothing else
  changed. Any later creation, which finds the counter higher, gives a different receipt
  number.
\<close>

theorem createNewentry_receipt:
  assumes "createNewentry env d b = (r, d')" and "code r = 201"
    and "currentReceiptNumber d = Some n" and "n < 2 ^ 53"
  shows "\<exists>e. payload r = EntryData e
           \<and> receiptNo e = padStart 4 (CHR ''0'') (js_String n)
           \<and> 4 \<le> length (receiptNo e) \<and> decimalValue (receiptNo e) = n
           \<and> (4 \<le> length (js_String n) \<longrightarrow> receiptNo e = js_String n)
           \<and> runSchedule [0, 0, 0, 0] (d, [(env, Start b)]) =
                (d\<lparr>currentReceiptNumber := Some (n + 1)\<rparr>, [(env, AwaitEntrySave e)])
           \<and> currentReceiptNumber d' = Some (n + 1) \<and> e \<in> set (entries d')
           \<and> (\<forall>env2 d1 b2 r2 d2 m.
                 currentReceiptNumber d1 = Some m \<and> n < m \<and> m \<le> 2 ^ 53 \<and>
                 createNewentry env2 d1 b2 = (r2, d2) \<and> code r2 = 201 \<longrightarrow>
                 (\<exists>e2. payload r2 = EntryData e2 \<and> receiptNo e2 \<noteq> receiptNo e))"
proof -
  from createNewentry_201[OF assms(1,2)] assms(3) obtain name cid pd c d3 where
    b: "bCustomer b = Some name" "bCustomerId b = Some cid" "bPickupAndDelivery b = Some pd"
    and c: "customers d cid = Some c"
    and t: "throws env FindCustomer = None" "throws env FindReceipt = None"
           "throws env SaveReceipt = None" "throws env SaveEntry = None"
    and m: "manualUpdateStats env
               (d\<lparr>currentReceiptNumber := Some (js_add1 n),
                  entries := entries d @ [newEntry env b name cid c pd (padStart 4 (CHR ''0'') (js_String n))]\<rparr>)
             = Inr d3"
    and d': "d' = d3"
    and r: "r = reply 201 True ''Entry created successfully''
                 (EntryData (newEntry env b name cid c pd (padStart 4 (CHR ''0'') (js_String n))))"
    by auto
  note n = assms(3)
  have inc: "js_add1 n = n + 1" using assms(4) by (rule js_add1_below)
  define e where "e = newEntry env b name cid c pd (padStart 4 (CHR ''0'') (js_String n))"
  have rn: "receiptNo e = padStart 4 (CHR ''0'') (js_String n)"
    by (simp add: e_def newEntry_def)
  have valid: "name \<noteq> []" "expectedDelivery pd \<noteq> None"
    using assms(1,2) b by (auto simp: createNewentry_def reply_def split: if_splits)
  have p: "payload r = EntryData e" by (simp add: r e_def reply_def)
  have len: "4 \<le> length (receiptNo e)" by (simp add: rn padStart_def)
  have dv: "decimalValue (receiptNo e) = n" by (simp add: rn receipt_roundtrip)
  have long: "4 \<le> length (js_String n) \<longrightarrow> receiptNo e = js_String n"
    by (simp add: rn padStart_def)
  have run: "runSchedule [0, 0, 0, 0] (d, [(env, Start b)]) =
                (d\<lparr>currentReceiptNumber := Some (n + 1)\<rparr>, [(env, AwaitEntrySave e)])"
    using b c n t valid inc by (simp add: runSchedule_def stepAt_def e_def)
  from manualUpdateStats_Inr[of env "d\<lparr>currentReceiptNumber := Some (js_add1 n),
                  entries := entries d @ [e]\<rparr>"] m
  have after: "currentReceiptNumber d' = Some (n + 1)" "e \<in> set (entries d')"
    by (auto simp: d' e_def inc)
  have later: "\<exists>e2. payload r2 = EntryData e2 \<and> receiptNo e2 \<noteq> receiptNo e"
    if h: "currentReceiptNumber d1 = Some m" "n < m" "createNewentry env2 d1 b2 = (r2, d2)" "code r2 = 201"
    for env2 d1 b2 r2 d2 m
  proof -
    from createNewentry_201[OF h(3) h(4)] h(1) obtain e2 where
      "payload r2 = EntryData e2" "receiptNo e2 = padStart 4 (CHR ''0'') (js_String m)"
      by (auto simp: reply_def newEntry_def)
    moreover have "padStart 4 (CHR ''0'') (js_String m) \<noteq> padStart 4 (CHR ''0'') (js_String n)"
      using h(2) receipt_inj by fastforce
    ultimately show ?thesis by (auto simp: rn)
  qed
  show ?thesis
    using p rn len dv long run after later by blast
qed

theorem createNewentry_receipt_witness:
  "code (fst (createNewentry (request 900000000 101) shop sareeOrder)) = 201 \<and>
   currentReceiptNumber (snd (createNewentry (request 900000000 101) shop sareeOrder)) = Some 8"
proof -
  have c: "code (fst (createNewentry (request 900000000 101) shop sareeOrder)) = 201"
    by (simp add: createNewentry_def request_def shop_def sareeOrder_def manualUpdateStats_def
          reply_def Let_def)
  have n: "currentReceiptNumber shop = Some 7" by (simp add: shop_def)
  have l: "(7::nat) < 2 ^ 53" by simp
  from createNewentry_receipt [OF prod.collapse [symmetric] c n l] c show ?thesis by auto
qed

lemma receipt_at_limit:
  "padStart 4 (CHR ''0'') (js_String 9007199254740992) = ''9007199254740992''"
  by (simp add: js_String.simps digit_char_def padStart_def)

text \<open>
  At \<open>2 ^ 53\<close> the increment is lost. A creation that finds the counter there answers
  201 and leaves the counter where it was, and the next creation answers 201 with the same
  receipt number.
\<close>

theorem createNewentry_receipt_counterexample:
  "currentReceiptNumber shopAtLimit = Some (2 ^ 53)
   \<and> code (fst (createNewentry (request 900000000 101) shopAtLimit sareeOrder)) = 201
   \<and> currentReceiptNumber (snd (createNewentry (request 900000000 101) shopAtLimit sareeOrder))
       = Some (2 ^ 53)
   \<and> receiptOf (Finished (fst (createNewentry (request 900000000 101) shopAtLimit sareeOrder)))
       = Some ''9007199254740992''
   \<and> code (fst (createNewentry (request 900060000 102)
                 (snd (createNewentry (request 900000000 101) shopAtLimit sareeOrder)) sareeOrder)) = 201
   \<and> receiptOf (Finished (fst (createNewentry (request 900060000 102)
                 (snd (createNewentry (request 900000000 101) shopAtLimit sareeOrder)) sareeOrder)))
       = Some ''9007199254740992''"
  by (simp add: createNewentry_def request_def shopAtLimit_def shop_def sareeOrder_def
        manualUpdateStats_def reply_def Let_def js_add1_def newEntry_def receipt_at_limit)

subsection \<open>Finding and replacing by id\<close>

lemma findById_ident: "findById d i = Some e \<Longrightarrow> ident e = i"
  by (auto simp: findById_def find_Some_iff)

lemma findById_mem: "findById d i = Some e \<Longrightarrow> e \<in> set (entries d)"
  by (auto simp: findById_def find_Some_iff)

lemma find_replaceById:
  "find (\<lambda>e. ident e = i) es = Some e0 \<Longrightarrow> ident e' = i \<Longrightarrow>
   find (\<lambda>e. ident e = i) (replaceById i e' es) = Some e'"
  by (induction es) (auto split: if_splits)

lemma find_replaceById_other:
  "j \<noteq> i \<Longrightarrow> ident e' = i \<Longrightarrow>
   find (\<lambda>e. ident e = j) (replaceById i e' es) = find (\<lambda>e. ident e = j) es"
  by (induction es) auto

lemma replaceById_twice:
  "find (\<lambda>e. ident e = i) es = Some e0 \<Longrightarrow> ident e' = i \<Longrightarrow>
   replaceById i e0 (replaceById i e' es) = es"
  by (induction es) (auto split: if_splits)

lemma length_replaceById: "length (replaceById i e' es) = length es"
  by (induction es) auto


lemma ident_applyUpdate: "ident (applyUpdate u e) = ident e"
  by (simp add: applyUpdate_def Let_def)

lemma stats_entries:
  "manualUpdateStats env d = Inr d' \<Longrightarrow>
   entries d' = entries d \<and> currentReceiptNumber d' = currentReceiptNumber d
   \<and> customers d' = customers d \<and> storeRegex d' = storeRegex d"
  by (auto simp: manualUpdateStats_def split: option.splits)

lemma stats_findById: "manualUpdateStats env d = Inr d' \<Longrightarrow> findById d' i = findById d i"
  by (auto simp: manualUpdateStats_def findById_def split: option.splits)

lemma updateEntry_200:
  assumes "updateEntry env d i b = (r, d')" and "code r = 200"
  shows "\<exists>e0. findById d i = Some e0 \<and> throws env UpdateEntry = None
           \<and> r = reply 200 True ''Entry updated successfully'' (EntryData (applyUpdate (stampStatus env b) e0))
           \<and> entries d' = replaceById i (applyUpdate (stampStatus env b) e0) (entries d)
           \<and> findById d' i = Some (applyUpdate (stampStatus env b) e0)"
proof -
  from assms obtain e0 d1 where
    f: "findByIdAndUpdate env d i (stampStatus env b) = Inr (Some (applyUpdate (stampStatus env b) e0), d1)"
    and e0: "findById d i = Some e0" and t: "throws env UpdateEntry = None"
    and d1: "d1 = d\<lparr>entries := replaceById i (applyUpdate (stampStatus env b) e0) (entries d)\<rparr>"
    and m: "manualUpdateStats env d1 = Inr d'"
    and r: "r = reply 200 True ''Entry updated successfully'' (EntryData (applyUpdate (stampStatus env b) e0))"
    by (auto simp: updateEntry_def findByIdAndUpdate_def reply_def
             split: option.splits sum.splits prod.splits)
  have "findById d1 i = Some (applyUpdate (stampStatus env b) e0)"
    using e0 findById_ident[OF e0]
    by (simp add: d1 findById_def find_replaceById ident_applyUpdate)
  with m stats_entries[OF m] stats_findById[OF m] e0 t r d1 show ?thesis by simp
qed

lemma updateEntry_accepts:
  assumes "findById d i = Some e0" and "throws env UpdateEntry = None"
  shows "\<exists>d'. updateEntry env d i b =
            (reply 200 True ''Entry updated successfully'' (EntryData (applyUpdate (stampStatus env b) e0)), d')
          \<and> findById d' i = Some (applyUpdate (stampStatus env b) e0)"
proof -
  obtain d2 where m: "manualUpdateStats env (d\<lparr>entries := replaceById i (applyUpdate (stampStatus env b) e0) (entries d)\<rparr>) = Inr d2"
    using manualUpdateStats_Inr by blast
  then have u: "updateEntry env d i b =
            (reply 200 True ''Entry updated successfully'' (EntryData (applyUpdate (stampStatus env b) e0)), d2)"
    using assms by (simp add: updateEntry_def findByIdAndUpdate_def)
  from updateEntry_200[OF u] show ?thesis using u by (auto simp: reply_def)
qed

subsection \<open>Tax defaults\<close>



subsection \<open>A failing statistics recompute\<close>

text \<open>
  C3. For creation, update and deletion alike, the response and the entries left in the
  store are the same whether the statistics recompute fails or works: its failure is not the
  request's error. In particular, with a failing recompute, a creation that has added its
  entry answers 201, and an update or a deletion of an existing entry that the store accepts
  answers 200; the summary record stays as it was.
\<close>

theorem recompute_failure_swallowed:
  "fst (createNewentry (recomputeFailing m env) d b) = fst (createNewentry (recomputeWorking env) d b)
   \<and> fst (updateEntry (recomputeFailing m env) d i u) = fst (updateEntry (recomputeWorking env) d i u)
   \<and> fst (deleteEntry (recomputeFailing m env) d i) = fst (deleteEntry (recomputeWorking env) d i)
   \<and> entries (snd (createNewentry (recomputeFailing m env) d b))
       = entries (snd (createNewentry (recomputeWorking env) d b))
   \<and> entries (snd (updateEntry (recomputeFailing m env) d i u))
       = entries (snd (updateEntry (recomputeWorking env) d i u))
   \<and> entries (snd (deleteEntry (recomputeFailing m env) d i))
       = entries (snd (deleteEntry (recomputeWorking env) d i))
   \<and> (entries (snd (createNewentry (recomputeFailing m env) d b)) \<noteq> entries d \<longrightarrow>
        code (fst (createNewentry (recomputeFailing m env) d b)) = 201
      \<and> success (fst (createNewentry (recomputeFailing m env) d b))
      \<and> entryStat (snd (createNewentry (recomputeFailing m env) d b)) = entryStat d)
   \<and> (findById d i \<noteq> None \<and> throws env UpdateEntry = None \<longrightarrow>
        code (fst (updateEntry (recomputeFailing m env) d i u)) = 200
      \<and> success (fst (updateEntry (recomputeFailing m env) d i u))
      \<and> entryStat (snd (updateEntry (recomputeFailing m env) d i u)) = entryStat d)
   \<and> (findById d i \<noteq> None \<and> throws env DeleteEntry = None \<longrightarrow>
        code (fst (deleteEntry (recomputeFailing m env) d i)) = 200
      \<and> success (fst (deleteEntry (recomputeFailing m env) d i))
      \<and> entries (snd (deleteEntry (recomputeFailing m env) d i)) = removeById i (entries d)
      \<and> entryStat (snd (deleteEntry (recomputeFailing m env) d i)) = entryStat d)"
proof -
  have c: "fst (createNewentry (recomputeFailing m env) d b) = fst (createNewentry (recomputeWorking env) d b)
      \<and> entries (snd (createNewentry (recomputeFailing m env) d b))
       = entries (snd (createNewentry (recomputeWorking env) d b))"
    by (simp add: createNewentry_def recomputeFailing_def recomputeWorking_def
          manualUpdateStats_def newEntry_def Let_def split: option.splits)
  have u: "fst (updateEntry (recomputeFailing m env) d i u) = fst (updateEntry (recomputeWorking env) d i u)
      \<and> entries (snd (updateEntry (recomputeFailing m env) d i u))
       = entries (snd (updateEntry (recomputeWorking env) d i u))"
    by (simp add: updateEntry_def findByIdAndUpdate_def stampStatus_def recomputeFailing_def
          recomputeWorking_def manualUpdateStats_def split: option.splits)
  have dl: "fst (deleteEntry (recomputeFailing m env) d i) = fst (deleteEntry (recomputeWorking env) d i)
      \<and> entries (snd (deleteEntry (recomputeFailing m env) d i))
       = entries (snd (deleteEntry (recomputeWorking env) d i))"
    by (simp add: deleteEntry_def recomputeFailing_def recomputeWorking_def
          manualUpdateStats_def Let_def split: option.splits)
  have c2: "entries (snd (createNewentry (recomputeFailing m env) d b)) \<noteq> entries d \<longrightarrow>
        code (fst (createNewentry (recomputeFailing m env) d b)) = 201
      \<and> success (fst (createNewentry (recomputeFailing m env) d b))
      \<and> entryStat (snd (createNewentry (recomputeFailing m env) d b)) = entryStat d"
    by (auto simp: createNewentry_def recomputeFailing_def manualUpdateStats_def reply_def Let_def
          split: option.splits)
  have u2: "findById d i \<noteq> None \<and> throws env UpdateEntry = None \<longrightarrow>
        code (fst (updateEntry (recomputeFailing m env) d i u)) = 200
      \<and> success (fst (updateEntry (recomputeFailing m env) d i u))
      \<and> entryStat (snd (updateEntry (recomputeFailing m env) d i u)) = entryStat d"
    by (auto simp: updateEntry_def findByIdAndUpdate_def recomputeFailing_def
          manualUpdateStats_def reply_def split: option.splits)
  have d2: "findById d i \<noteq> None \<and> throws env DeleteEntry = None \<longrightarrow>
        code (fst (deleteEntry (recomputeFailing m env) d i)) = 200
      \<and> success (fst (deleteEntry (recomputeFailing m env) d i))
      \<and> entries (snd (deleteEntry (recomputeFailing m env) d i)) = removeById i (entries d)
      \<and> entryStat (snd (deleteEntry (recomputeFailing m env) d i)) = entryStat d"
    by (auto simp: deleteEntry_def recomputeFailing_def manualUpdateStats_def reply_def Let_def
          split: option.splits)
  from c u dl c2 u2 d2 show ?thesis by blast
qed

theorem recompute_failure_swallowed_witness:
  "code (fst (createNewentry (recomputeFailing ''stats store down'' (request 900000000 101)) shop sareeOrder))
     = 201"
proof -
  have w: "code (fst (createNewentry (recomputeWorking (request 900000000 101)) shop sareeOrder)) = 201"
    by (simp add: createNewentry_def request_def recomputeWorking_def shop_def sareeOrder_def
          manualUpdateStats_def reply_def Let_def)
  from recompute_failure_swallowed [THEN conjunct1, of "''stats store down''"
         "request 900000000 101" shop sareeOrder] w
  show ?thesis by simp
qed

subsection \<open>Status stamps\<close>

lemma stamp_applied:
  assumes "uStatus u = Some s"
  shows "status (applyUpdate (stampStatus env u) e) = Some s
     \<and> (s = ''delivered'' \<longrightarrow> deliveryDate (pickupAndDelivery (applyUpdate (stampStatus env u) e)) = Some (now env))
     \<and> (s = ''collected'' \<longrightarrow> pickupDate (pickupAndDelivery (applyUpdate (stampStatus env u) e)) = Some (now env))
     \<and> (s = ''processedAndPacked'' \<longrightarrow>
           processedAndPackedDate (pickupAndDelivery (applyUpdate (stampStatus env u) e)) = Some (now env))"
  using assms by (simp add: applyUpdate_def stampStatus_def Let_def)

text \<open>
  C6. An update of an existing entry whose patch sets the status to delivered, and which the
  store accepts, answers 200 and leaves the entry with \<open>pickupAndDelivery.deliveryDate\<close>
  equal to the time of the request, whatever the entry's status and stamp were before;
  the same holds for collected with \<open>pickupDate\<close> and for processedAndPacked with
  \<open>processedAndPackedDate\<close>. Sending the same patch again at a later time stamps the
  entry again, with that later time.
\<close>

theorem status_stamps:
  assumes "findById d i = Some e" and "uStatus u = Some s"
    and "throws env1 UpdateEntry = None" and "throws env2 UpdateEntry = None"
    and "now env1 < now env2"
  shows "\<exists>r1 d1 e1 r2 d2 e2.
           updateEntry env1 d i u = (r1, d1) \<and> code r1 = 200 \<and> findById d1 i = Some e1
         \<and> status e1 = Some s
         \<and> updateEntry env2 d1 i u = (r2, d2) \<and> code r2 = 200 \<and> findById d2 i = Some e2
         \<and> status e2 = Some s
         \<and> (s = ''delivered'' \<longrightarrow>
               deliveryDate (pickupAndDelivery e1) = Some (now env1)
             \<and> deliveryDate (pickupAndDelivery e2) = Some (now env2)
             \<and> the (deliveryDate (pickupAndDelivery e1)) < the (deliveryDate (pickupAndDelivery e2)))
         \<and> (s = ''collected'' \<longrightarrow>
               pickupDate (pickupAndDelivery e1) = Some (now env1)
             \<and> pickupDate (pickupAndDelivery e2) = Some (now env2)
             \<and> the (pickupDate (pickupAndDelivery e1)) < the (pickupDate (pickupAndDelivery e2)))
         \<and> (s = ''processedAndPacked'' \<longrightarrow>
               processedAndPackedDate (pickupAndDelivery e1) = Some (now env1)
             \<and> processedAndPackedDate (pickupAndDelivery e2) = Some (now env2)
             \<and> the (processedAndPackedDate (pickupAndDelivery e1)) < the (processedAndPackedDate (pickupAndDelivery e2)))"
proof -
  define e1 where "e1 = applyUpdate (stampStatus env1 u) e"
  define e2 where "e2 = applyUpdate (stampStatus env2 u) e1"
  from updateEntry_accepts[OF assms(1) assms(3), of u] obtain d1 where
    u1: "updateEntry env1 d i u = (reply 200 True ''Entry updated successfully'' (EntryData e1), d1)"
    and f1: "findById d1 i = Some e1"
    by (auto simp: e1_def)
  from updateEntry_accepts[OF f1 assms(4), of u] obtain d2 where
    u2: "updateEntry env2 d1 i u = (reply 200 True ''Entry updated successfully'' (EntryData e2), d2)"
    and f2: "findById d2 i = Some e2"
    by (auto simp: e2_def)
  from stamp_applied[OF assms(2), of env1 e] stamp_applied[OF assms(2), of env2 e1] assms(5)
  have "status e1 = Some s" "status e2 = Some s"
     "s = ''delivered'' \<longrightarrow>
               deliveryDate (pickupAndDelivery e1) = Some (now env1)
             \<and> deliveryDate (pickupAndDelivery e2) = Some (now env2)
             \<and> the (deliveryDate (pickupAndDelivery e1)) < the (deliveryDate (pickupAndDelivery e2))"
     "s = ''collected'' \<longrightarrow>
               pickupDate (pickupAndDelivery e1) = Some (now env1)
             \<and> pickupDate (pickupAndDelivery e2) = Some (now env2)
             \<and> the (pickupDate (pickupAndDelivery e1)) < the (pickupDate (pickupAndDelivery e2))"
     "s = ''processedAndPacked'' \<longrightarrow>
               processedAndPackedDate (pickupAndDelivery e1) = Some (now env1)
             \<and> processedAndPackedDate (pickupAndDelivery e2) = Some (now env2)
             \<and> the (processedAndPackedDate (pickupAndDelivery e1)) < the (processedAndPackedDate (pickupAndDelivery e2))"
    by (simp_all add: e1_def e2_def)
  moreover have "code (reply 200 True ''Entry updated successfully'' (EntryData e1)) = 200"
    "code (reply 200 True ''Entry updated successfully'' (EntryData e2)) = 200"
    by (simp_all add: reply_def)
  ultimately show ?thesis
    using u1 f1 u2 f2 by blast
qed

theorem status_stamps_witness:
  "deliveryDate (pickupAndDelivery (the (findById (snd (updateEntry (request 900000000 0) shop 1 deliver)) 1)))
     = Some 900000000
   \<and> deliveryDate (pickupAndDelivery (the (findById
        (snd (updateEntry (request 900060000 0) (snd (updateEntry (request 900000000 0) shop 1 deliver)) 1 deliver)) 1)))
     = Some 900060000"
proof -
  have f: "findById shop 1 = Some anna" by (simp add: findById_def shop_def anna_def)
  have s: "uStatus deliver = Some ''delivered''" by (simp add: deliver_def)
  have t: "throws (request 900000000 0) UpdateEntry = None" "throws (request 900060000 0) UpdateEntry = None"
    by (simp_all add: request_def)
  have n: "now (request 900000000 0) < now (request 900060000 0)" by (simp add: request_def)
  from status_stamps [OF f s t n] show ?thesis by (auto simp: request_def)
qed

subsection \<open>The visibility toggle\<close>

text \<open>
  C9. Toggling an existing entry, with the store answering, replies 200 with the negated
  flag and leaves that entry with \<open>visible\<close> negated and every other field as it was; every
  other entry and every other part of the store is unchanged. Toggling it once more gives
  back the store as it was before the first toggle.
\<close>

theorem toggle_frame:
  assumes "findById d i = Some e" and "throws env FindEntry = None" and "throws env SaveEntry = None"
  shows "\<exists>r d'. toggleVisibility env d i = (r, d') \<and> code r = 200
           \<and> payload r = ToggleData i (\<not> visible e)
           \<and> findById d' i = Some (e\<lparr>visible := \<not> visible e\<rparr>)
           \<and> (\<forall>j. j \<noteq> i \<longrightarrow> findById d' j = findById d j)
           \<and> length (entries d') = length (entries d)
           \<and> d' = d\<lparr>entries := entries d'\<rparr>
           \<and> (\<forall>env'. throws env' FindEntry = None \<and> throws env' SaveEntry = None \<longrightarrow>
                 snd (toggleVisibility env' d' i) = d)"
proof -
  define e' where "e' = e\<lparr>visible := \<not> visible e\<rparr>"
  define d' where "d' = d\<lparr>entries := replaceById i e' (entries d)\<rparr>"
  have ie: "ident e = i" using assms(1) by (rule findById_ident)
  have ie': "ident e' = i" by (simp add: e'_def ie)
  have t: "toggleVisibility env d i =
             (reply 200 True (if visible e' then ''Entry is now visible'' else ''Entry is now hidden'')
                (ToggleData i (visible e')), d')"
    using assms ie' by (simp add: toggleVisibility_def d'_def e'_def Let_def)
  have f': "findById d' i = Some e'"
    using assms(1) ie' by (simp add: d'_def findById_def find_replaceById)
  have other: "findById d' j = findById d j" if "j \<noteq> i" for j
    using that ie' by (simp add: d'_def findById_def find_replaceById_other)
  have len: "length (entries d') = length (entries d)"
    by (simp add: d'_def length_replaceById)
  have same: "d' = d\<lparr>entries := entries d'\<rparr>" by (simp add: d'_def)
  have undo: "snd (toggleVisibility env' d' i) = d"
    if "throws env' FindEntry = None \<and> throws env' SaveEntry = None" for env'
  proof -
    have "e'\<lparr>visible := \<not> visible e'\<rparr> = e" by (simp add: e'_def)
    moreover have "replaceById i e (replaceById i e' (entries d)) = entries d"
      using assms(1) ie' by (simp add: findById_def replaceById_twice)
    ultimately show ?thesis
      using that f' by (simp add: toggleVisibility_def Let_def d'_def)
  qed
  show ?thesis
    using t f' other len same undo
    by (intro exI[of _ "reply 200 True (if visible e' then ''Entry is now visible'' else ''Entry is now hidden'')
                (ToggleData i (visible e'))"] exI[of _ d'])
       (simp add: reply_def e'_def)
qed

theorem toggle_frame_witness:
  "findById (snd (toggleVisibility (request 900000000 0) shop 2)) 2 = Some (bela\<lparr>visible := True\<rparr>)
   \<and> findById (snd (toggleVisibility (request 900000000 0) shop 2)) 1 = Some anna"
proof -
  have f: "findById shop 2 = Some bela" by (simp add: findById_def shop_def anna_def bela_def)
  have g: "findById shop 1 = Some anna" by (simp add: findById_def shop_def anna_def)
  have t: "throws (request 900000000 0) FindEntry = None" "throws (request 900000000 0) SaveEntry = None"
    by (simp_all add: request_def)
  have v: "visible bela = False" by (simp add: bela_def)
  from toggle_frame [OF f t] g v show ?thesis by auto
qed

subsection \<open>Reads and the visibility flag\<close>

lemma findEntries_visibility: "findEntries d (visibilityFilter sa) = inScope sa d"
  by (simp add: findEntries_def visibilityFilter_def inScope_def)

lemma findEntries_Both_visibility:
  "findEntries d (Both (visibilityFilter sa) c) = filter (\<lambda>e. matches d e c) (inScope sa d)"
  by (simp add: findEntries_def visibilityFilter_def inScope_def conj_commute)


lemma length_newestFirst: "length (newestFirst es) = length es"
  by (simp add: newestFirst_def)

lemma tally_fold:
  "distinct ks \<Longrightarrow>
   pending (foldl (\<lambda>sc item.
              case fst item of
                None \<Rightarrow> sc
              | Some k \<Rightarrow> if k \<noteq> [] \<and> hasOwnProperty k then setCount k (snd item) sc else sc)
             sc (map (\<lambda>s. (s, c s)) ks))
     = (if Some ''pending'' \<in> set ks then c (Some ''pending'') else pending sc)
 \<and> collected (foldl (\<lambda>sc item.
              case fst item of
                None \<Rightarrow> sc
              | Some k \<Rightarrow> if k \<noteq> [] \<and> hasOwnProperty k then setCount k (snd item) sc else sc)
             sc (map (\<lambda>s. (s, c s)) ks))
     = (if Some ''collected'' \<in> set ks then c (Some ''collected'') else collected sc)
 \<and> processedAndPacked (foldl (\<lambda>sc item.
              case fst item of
                None \<Rightarrow> sc
              | Some k \<Rightarrow> if k \<noteq> [] \<and> hasOwnProperty k then setCount k (snd item) sc else sc)
             sc (map (\<lambda>s. (s, c s)) ks))
     = (if Some ''processedAndPacked'' \<in> set ks then c (Some ''processedAndPacked'')
        else processedAndPacked sc)
 \<and> delivered (foldl (\<lambda>sc item.
              case fst item of
                None \<Rightarrow> sc
              | Some k \<Rightarrow> if k \<noteq> [] \<and> hasOwnProperty k then setCount k (snd item) sc else sc)
             sc (map (\<lambda>s. (s, c s)) ks))
     = (if Some ''delivered'' \<in> set ks then c (Some ''delivered'') else delivered sc)"
proof (induction ks arbitrary: sc)
  case Nil
  show ?case by simp
next
  case (Cons s ks)
  from Cons.prems have d: "distinct ks" and n: "s \<notin> set ks" by simp_all
  show ?case
  proof (cases s)
    case None
    then show ?thesis using Cons.IH[OF d] n by simp
  next
    case (Some k)
    then show ?thesis using Cons.IH[OF d] n
      by (auto simp: setCount_def hasOwnProperty_def)
  qed
qed

lemma count_filter_zero: "x \<notin> f ` set es \<Longrightarrow> length (filter (\<lambda>e. f e = x) es) = 0"
  by (induction es) auto

lemma tally_groupByStatus:
  "pending (tally (groupByStatus es)) = countStatus ''pending'' es
 \<and> collected (tally (groupByStatus es)) = countStatus ''collected'' es
 \<and> processedAndPacked (tally (groupByStatus es)) = countStatus ''processedAndPacked'' es
 \<and> delivered (tally (groupByStatus es)) = countStatus ''delivered'' es"
  using tally_fold[of "remdups (map status es)"
          "\<lparr>pending = 0, collected = 0, processedAndPacked = 0, delivered = 0\<rparr>"
          "\<lambda>s. length (filter (\<lambda>e. status e = s) es)"]
  by (simp add: tally_def groupByStatus_def countStatus_def count_filter_zero)

lemma known_total:
  "length (filter knownStatus es) =
     countStatus ''pending'' es + countStatus ''collected'' es
   + countStatus ''processedAndPacked'' es + countStatus ''delivered'' es"
  by (induction es) (auto simp: knownStatus_def countStatus_def)

text \<open>
  C10. The summary of getPendingDeliveries (no \<open>type\<close>, or an empty one), when the store
  answers: each of the four counts is the number of entries in scope with that status, and
  the total is the sum of the four counts, which is the number of entries in scope whose
  status is one of the four. An entry in scope without a status, or with another one,
  is in none of these numbers.
\<close>

theorem summary_total:
  assumes "throws env Aggregate = None" and "throws env CountEntries = None"
    and "ty = None \<or> ty = Some []"
  shows "\<exists>s. getPendingDeliveries env d ty pg sa =
               \<lparr>code = 200, success = True, message = None, payload = SummaryData s\<rparr>
           \<and> sTotal s = sPending s + sCollected s + sProcessedAndPacked s + sDelivered s
           \<and> sPending s = countStatus ''pending'' (inScope sa d)
           \<and> sCollected s = countStatus ''collected'' (inScope sa d)
           \<and> sProcessedAndPacked s = countStatus ''processedAndPacked'' (inScope sa d)
           \<and> sDelivered s = countStatus ''delivered'' (inScope sa d)
           \<and> sTotal s = length (filter knownStatus (inScope sa d))"
proof -
  have g: "getPendingDeliveries env d ty pg sa = pendingSummary env d sa"
    using assms(3) by (auto simp: getPendingDeliveries_def)
  show ?thesis
    using assms(1,2) tally_groupByStatus[of "inScope sa d"]
    by (simp add: g pendingSummary_def Let_def findEntries_visibility known_total)
qed

theorem summary_total_witness:
  "\<exists>s. getPendingDeliveries (request 900000000 0) shop None None (Some ''true'') =
          \<lparr>code = 200, success = True, message = None, payload = SummaryData s\<rparr>
      \<and> sPending s = 1 \<and> sCollected s = 1 \<and> sTotal s = 2"
proof -
  have t: "throws (request 900000000 0) Aggregate = None" "throws (request 900000000 0) CountEntries = None"
    by (simp_all add: request_def)
  have i: "inScope (Some ''true'') shop = [anna, bela, cara]" by (simp add: inScope_def shop_def)
  have k: "knownStatus anna" "knownStatus bela" "\<not> knownStatus cara"
    "countStatus ''pending'' [anna, bela, cara] = 1" "countStatus ''collected'' [anna, bela, cara] = 1"
    by (simp_all add: knownStatus_def countStatus_def anna_def bela_def cara_def)
  from summary_total [OF t, of None shop None "Some ''true''"] obtain s where
    "getPendingDeliveries (request 900000000 0) shop None None (Some ''true'') =
          \<lparr>code = 200, success = True, message = None, payload = SummaryData s\<rparr>"
    "sPending s = countStatus ''pending'' (inScope (Some ''true'') shop)"
    "sCollected s = countStatus ''collected'' (inScope (Some ''true'') shop)"
    "sTotal s = length (filter knownStatus (inScope (Some ''true'') shop))"
    by blast
  then show ?thesis by (intro exI[of _ s]) (simp add: i k)
qed





lemma searchEntry_scope:
  assumes "trim q \<noteq> []" and "throws env FindEntries = None" and "regexI d q = Some m"
  shows "searchEntry env d (Some q) sa =
           (if filter (\<lambda>e. m (customer e) \<or> (\<not> js_isNaN q \<and> receiptNoEq (receiptNo e) (js_parseInt q)))
                 (inScope sa d) = []
            then reply 404 False ''No entries found'' NoData
            else \<lparr>code = 200, success = True, message = None,
                  payload = EntriesData
                    (filter (\<lambda>e. m (customer e) \<or> (\<not> js_isNaN q \<and> receiptNoEq (receiptNo e) (js_parseInt q)))
                       (inScope sa d))\<rparr>)"
proof (cases "js_isNaN q")
  case True
  then show ?thesis
    using assms by (simp add: searchEntry_def Let_def findEntries_Both_visibility)
next
  case False
  then show ?thesis
    using assms by (simp add: searchEntry_def Let_def findEntries_Both_visibility)
qed


lemma pendingSummary_scope:
  assumes "payload (pendingSummary env d sa) = SummaryData s"
  shows "sPending s = countStatus ''pending'' (inScope sa d)
       \<and> sCollected s = countStatus ''collected'' (inScope sa d)
       \<and> sProcessedAndPacked s = countStatus ''processedAndPacked'' (inScope sa d)
       \<and> sDelivered s = countStatus ''delivered'' (inScope sa d)
       \<and> sTodayExpected s =
           length (filter (\<lambda>e. matches d e
                     (Both (ExpectedBetween (startOfDay kolkata (now env)) (endOfDay kolkata (now env)))
                           (StatusNe ''delivered''))) (inScope sa d))
       \<and> sTodayReceived s =
           length (filter (\<lambda>e. matches d e
                     (CreatedBetween (startOfDay kolkata (now env)) (endOfDay kolkata (now env))))
                   (inScope sa d))"
  using assms tally_groupByStatus[of "inScope sa d"]
  by (auto simp del: matches.simps
        simp: pendingSummary_def Let_def reply_def findEntries_visibility
        findEntries_Both_visibility countDocuments_def split: option.splits)








subsection \<open>Search\<close>

lemma compileRegex_plain: "plainText q \<Longrightarrow> compileRegex q = Some (map Lit q)"
  by (auto simp: plainText_def compileRegex_def list_all_iff list_ex_iff not_le)

lemma matchHere_Lit: "matchHere (map Lit q) s = prefix (map toLower q) (map toLower s)"
proof (induction q arbitrary: s)
  case Nil
  show ?case by simp
next
  case (Cons c q)
  show ?case by (cases s) (simp_all add: Cons.IH)
qed

lemma regexSearch_Lit: "regexSearch (map Lit q) s = containsCI q s"
proof (induction s)
  case Nil
  show ?case by (cases q) (simp_all add: containsCI_def)
next
  case (Cons x xs)
  have "regexSearch (map Lit q) (x # xs) =
          (prefix (map toLower q) (map toLower (x # xs)) \<or> containsCI q xs)"
    by (simp add: Cons.IH matchHere_Lit del: matchHere.simps)
  then show ?case by (simp add: containsCI_def sublist_Cons_right)
qed

lemma regexI_plain: "plainText q \<Longrightarrow> regexI d q = Some (containsCI q)"
  by (simp add: regexI_def compileRegex_plain regexSearch_Lit fun_eq_iff)

lemma searchEntry_400:
  "(code (searchEntry env d qp sa) = 400) = (case qp of None \<Rightarrow> True | Some q \<Rightarrow> trim q = [])"
  by (simp add: searchEntry_def Let_def reply_def split: option.splits)

lemma searchEntry_500:
  "trim q \<noteq> [] \<Longrightarrow> throws env FindEntries \<noteq> None \<or> regexI d q = None \<Longrightarrow>
   searchEntry env d (Some q) sa = reply 500 False ''Internal server error'' NoData"
  by (auto simp: searchEntry_def Let_def)

lemma isDigit_digit_char: "k < 10 \<Longrightarrow> isDigit (digit_char k)"
  by (simp add: isDigit_def digitOf_digit_char)

lemma digits_js_String: "list_all isDigit (js_String n)"
proof (induction n rule: js_String.induct)
  case (1 n)
  show ?case
  proof (cases "n < 10")
    case True
    then show ?thesis by (subst js_String.simps) (simp add: isDigit_digit_char)
  next
    case False
    then show ?thesis using 1 by (subst js_String.simps) (simp add: isDigit_digit_char)
  qed
qed

lemma receiptValue_created: "receiptValue (padStart 4 (CHR ''0'') (js_String n)) = Some (int n)"
proof -
  have z: "isDigit (CHR ''0'')" by (simp add: isDigit_def digitOf_def)
  have ne: "js_String n \<noteq> []" using length_js_String[of n] by auto
  have "list_all isDigit (padStart 4 (CHR ''0'') (js_String n))"
    using digits_js_String[of n] z by (auto simp: padStart_def list_all_iff)
  then show ?thesis
    using ne by (simp add: receiptValue_def receipt_roundtrip) (simp add: padStart_def)
qed

text \<open>
  C5, as amended. The search answers 400 exactly when the query is absent or empty after
  trimming. Otherwise the query is a regular expression for the customer, letter case
  ignored, and the search answers with exactly the entries in scope that it matches or,
  when the query converts to a number, whose receipt number is equal, as a number, to
  \<open>parseInt\<close> of the query; with 404 when there is none, and with 500 when the store
  fails or refuses the pattern. For a query without regular-expression metacharacters,
  matching it is containing it as a substring, letter case ignored.
\<close>

theorem search_plain:
  "(code (searchEntry env d qp sa) = 400) = (case qp of None \<Rightarrow> True | Some q' \<Rightarrow> trim q' = [])
 \<and> (trim q \<noteq> [] \<and> (throws env FindEntries \<noteq> None \<or> regexI d q = None) \<longrightarrow>
      searchEntry env d (Some q) sa = reply 500 False ''Internal server error'' NoData)
 \<and> (\<forall>m. trim q \<noteq> [] \<and> throws env FindEntries = None \<and> regexI d q = Some m \<longrightarrow>
      searchEntry env d (Some q) sa =
        (if filter (\<lambda>e. m (customer e) \<or> (\<not> js_isNaN q \<and> receiptNoEq (receiptNo e) (js_parseInt q)))
              (inScope sa d) = []
         then reply 404 False ''No entries found'' NoData
         else \<lparr>code = 200, success = True, message = None,
               payload = EntriesData
                 (filter (\<lambda>e. m (customer e) \<or> (\<not> js_isNaN q \<and> receiptNoEq (receiptNo e) (js_parseInt q)))
                    (inScope sa d))\<rparr>))
 \<and> (plainText q \<longrightarrow> regexI d q = Some (containsCI q))
 \<and> (\<forall>r k. receiptNoEq r (Some k) = (r \<noteq> [] \<and> list_all isDigit r \<and> int (decimalValue r) = k))
 \<and> (\<forall>r. \<not> receiptNoEq r None)
 \<and> (plainText q \<longrightarrow>
      searchEntry env d (Some q) sa =
        (if trim q = [] then reply 400 False ''Search query is required'' NoData
         else if throws env FindEntries \<noteq> None
           then reply 500 False ''Internal server error'' NoData
         else if filter (\<lambda>e. containsCI q (customer e)
                           \<or> (\<not> js_isNaN q \<and> receiptNoEq (receiptNo e) (js_parseInt q)))
                   (inScope sa d) = []
           then reply 404 False ''No entries found'' NoData
         else \<lparr>code = 200, success = True, message = None,
               payload = EntriesData
                 (filter (\<lambda>e. containsCI q (customer e)
                           \<or> (\<not> js_isNaN q \<and> receiptNoEq (receiptNo e) (js_parseInt q)))
                    (inScope sa d))\<rparr>))"
proof (intro conjI allI impI)
  show "(code (searchEntry env d qp sa) = 400) = (case qp of None \<Rightarrow> True | Some q' \<Rightarrow> trim q' = [])"
    by (rule searchEntry_400)
next
  assume "trim q \<noteq> [] \<and> (throws env FindEntries \<noteq> None \<or> regexI d q = None)"
  then show "searchEntry env d (Some q) sa = reply 500 False ''Internal server error'' NoData"
    using searchEntry_500 by blast
next
  fix m
  assume "trim q \<noteq> [] \<and> throws env FindEntries = None \<and> regexI d q = Some m"
  then show "searchEntry env d (Some q) sa =
        (if filter (\<lambda>e. m (customer e) \<or> (\<not> js_isNaN q \<and> receiptNoEq (receiptNo e) (js_parseInt q)))
              (inScope sa d) = []
         then reply 404 False ''No entries found'' NoData
         else \<lparr>code = 200, success = True, message = None,
               payload = EntriesData
                 (filter (\<lambda>e. m (customer e) \<or> (\<not> js_isNaN q \<and> receiptNoEq (receiptNo e) (js_parseInt q)))
                    (inScope sa d))\<rparr>)"
    using searchEntry_scope by blast
next
  assume "plainText q"
  then show "regexI d q = Some (containsCI q)" by (rule regexI_plain)
next
  fix r k
  show "receiptNoEq r (Some k) = (r \<noteq> [] \<and> list_all isDigit r \<and> int (decimalValue r) = k)"
    by (auto simp: receiptNoEq_def receiptValue_def)
next
  fix r
  show "\<not> receiptNoEq r None" by (simp add: receiptNoEq_def)
next
  assume p: "plainText q"
  show "searchEntry env d (Some q) sa =
        (if trim q = [] then reply 400 False ''Search query is required'' NoData
         else if throws env FindEntries \<noteq> None
           then reply 500 False ''Internal server error'' NoData
         else if filter (\<lambda>e. containsCI q (customer e)
                           \<or> (\<not> js_isNaN q \<and> receiptNoEq (receiptNo e) (js_parseInt q)))
                   (inScope sa d) = []
           then reply 404 False ''No entries found'' NoData
         else \<lparr>code = 200, success = True, message = None,
               payload = EntriesData
                 (filter (\<lambda>e. containsCI q (customer e)
                           \<or> (\<not> js_isNaN q \<and> receiptNoEq (receiptNo e) (js_parseInt q)))
                    (inScope sa d))\<rparr>)"
  proof (cases "trim q = []")
    case True
    then show ?thesis by (simp add: searchEntry_def)
  next
    case False
    show ?thesis
    proof (cases "throws env FindEntries = None")
      case True
      from searchEntry_scope[OF False True regexI_plain[OF p]] False True show ?thesis by simp
    next
      case no: False
      then show ?thesis using searchEntry_500[OF False, of env d sa] False by simp
    qed
  qed
qed

theorem search_plain_witness:
  "searchEntry (request 900000000 0) shop (Some ''5'') (Some ''true'') =
     \<lparr>code = 200, success = True, message = None, payload = EntriesData [anna]\<rparr>
   \<and> searchEntry (request 900000000 0) shop (Some ''ABC'') None =
     \<lparr>code = 200, success = True, message = None, payload = EntriesData [cara]\<rparr>"
proof -
  have p: "plainText ''5''" "plainText ''ABC''" by code_simp+
  have i: "inScope (Some ''true'') shop = [anna, bela, cara]" "inScope None shop = [anna, cara]"
    by (simp_all add: inScope_def shop_def anna_def bela_def cara_def)
  have c: "\<not> containsCI ''5'' (customer anna)" "\<not> containsCI ''5'' (customer bela)"
    "\<not> containsCI ''5'' (customer cara)" "\<not> js_isNaN ''5''" "js_parseInt ''5'' = Some 5"
    "receiptNoEq (receiptNo anna) (Some 5)" "\<not> receiptNoEq (receiptNo bela) (Some 5)"
    "\<not> receiptNoEq (receiptNo cara) (Some 5)" "trim ''5'' \<noteq> []"
    "\<not> containsCI ''ABC'' (customer anna)" "containsCI ''ABC'' (customer cara)"
    "js_isNaN ''ABC''" "trim ''ABC'' \<noteq> []" "throws (request 900000000 0) FindEntries = None"
    by code_simp+
  have s: "\<And>q sa. plainText q \<Longrightarrow>
      searchEntry (request 900000000 0) shop (Some q) sa =
        (if trim q = [] then reply 400 False ''Search query is required'' NoData
         else if throws (request 900000000 0) FindEntries \<noteq> None
           then reply 500 False ''Internal server error'' NoData
         else if filter (\<lambda>e. containsCI q (customer e)
                           \<or> (\<not> js_isNaN q \<and> receiptNoEq (receiptNo e) (js_parseInt q)))
                   (inScope sa shop) = []
           then reply 404 False ''No entries found'' NoData
         else \<lparr>code = 200, success = True, message = None,
               payload = EntriesData
                 (filter (\<lambda>e. containsCI q (customer e)
                           \<or> (\<not> js_isNaN q \<and> receiptNoEq (receiptNo e) (js_parseInt q)))
                    (inScope sa shop))\<rparr>)"
    using search_plain by blast
  show ?thesis by (simp add: s [OF p(1)] s [OF p(2)] i c)
qed

text \<open>
  The query is handed to the store as a regular expression, not as a text to look for: the
  query \<open>.\<close> is not a number, and finds the customer xyz, which has no dot in it. And the
  receipt number is compared with \<open>parseInt\<close> of the query, not with the number the
  query denotes: the query \<open>5e2\<close> is the number 500, and finds receipt 0005.
\<close>

theorem search_regex_counterexample:
  "searchEntry (request 900000000 0) shop (Some ''.'') (Some ''true'') =
     \<lparr>code = 200, success = True, message = None, payload = EntriesData [anna, bela, cara]\<rparr>
   \<and> customer bela = ''xyz'' \<and> \<not> containsCI ''.'' ''xyz'' \<and> js_isNaN ''.''
   \<and> searchEntry (request 900000000 0) shop (Some ''5e2'') (Some ''true'') =
     \<lparr>code = 200, success = True, message = None, payload = EntriesData [anna]\<rparr>
   \<and> \<not> containsCI ''5e2'' (customer anna) \<and> \<not> js_isNaN ''5e2''
   \<and> decimalLiteralValue ''5e2'' = 500 \<and> js_parseInt ''5e2'' = Some 5
   \<and> receiptNo anna = ''0005'' \<and> receiptValue ''0005'' = Some 5"
  by code_simp

subsection \<open>Day buckets of the dashboard\<close>

text \<open>
  The two windows of getPendingDeliveries are the current day in Asia/Kolkata.
\<close>

lemma today_window_is_kolkata_day:
  "(startOfDay kolkata t \<le> x \<and> x \<le> endOfDay kolkata t) = (dayIn kolkata x = dayIn kolkata t)"
  unfolding startOfDay_def endOfDay_def dayIn_def msPerDay_def kolkata_def
  by linarith

lemma weekly_keys_are_utc_days:
  "throws env Aggregate = None \<Longrightarrow>
   \<exists>n rows. payload (getRecentOrdersCount env d) = RecentData n rows
      \<and> map wDate rows = map (\<lambda>i. dayIn 0 (now env - i * msPerDay)) [6, 5, 4, 3, 2, 1, 0]"
  by (simp add: getRecentOrdersCount_def weekRowAt_def Let_def split: option.splits)

text \<open>
  C4 at a failing input. The server's clock is set to Asia/Kolkata and shows day 10,
  15:30 (day 10, 10:00 in UTC). Anna's order was created on day 10 at 01:30 in
  Asia/Kolkata, which is day 9, 20:00 in UTC. getRecentOrdersCount reports it under day 9,
  and under day 10 only the two other orders.
\<close>

theorem weekly_buckets_are_utc:
  "payload (getRecentOrdersCount ((request 900000000 0)\<lparr>serverOffset := kolkata\<rparr>) shop) =
     RecentData 3
       [\<lparr>wDate = 4, wTotalSales = 0, wOrderCount = 0\<rparr>,
        \<lparr>wDate = 5, wTotalSales = 0, wOrderCount = 0\<rparr>,
        \<lparr>wDate = 6, wTotalSales = 0, wOrderCount = 0\<rparr>,
        \<lparr>wDate = 7, wTotalSales = 0, wOrderCount = 0\<rparr>,
        \<lparr>wDate = 8, wTotalSales = 0, wOrderCount = 0\<rparr>,
        \<lparr>wDate = 9, wTotalSales = 105, wOrderCount = 1\<rparr>,
        \<lparr>wDate = 10, wTotalSales = 500, wOrderCount = 2\<rparr>]
   \<and> dayIn kolkata (createdAt anna) = 10 \<and> dayIn kolkata 900000000 = 10
   \<and> dayIn 0 (createdAt anna) = 9"
  by code_simp

text \<open>
  X1. getRecentOrdersCount has no visibility filter and no \<open>showAll\<close> parameter: its
  total counts every entry of the store, hidden ones included, and its seven rows are named
  by the days in UTC of now and of the six days before.
\<close>

theorem recent_orders_count_hidden:
  "throws env Aggregate = None \<Longrightarrow>
   \<exists>rows. getRecentOrdersCount env d =
            \<lparr>code = 200, success = True, message = None,
             payload = RecentData (length (entries d)) rows\<rparr>
        \<and> map wDate rows = map (\<lambda>i. dayIn 0 (now env - i * msPerDay)) [6, 5, 4, 3, 2, 1, 0]"
  by (simp add: getRecentOrdersCount_def weekRowAt_def Let_def split: option.splits)

theorem recent_orders_count_hidden_witness:
  "\<exists>rows. payload (getRecentOrdersCount (request 900000000 0) shop) = RecentData 3 rows
      \<and> map wDate rows = [4, 5, 6, 7, 8, 9, 10]"
proof -
  have t: "throws (request 900000000 0) Aggregate = None" by (simp add: request_def)
  have l: "length (entries shop) = 3" by (simp add: shop_def)
  have k: "map (\<lambda>i. dayIn 0 (now (request 900000000 0) - i * msPerDay)) [6, 5, 4, 3, 2, 1, 0]
             = [4, 5, 6, 7, 8, 9, 10]"
    by (simp add: dayIn_def msPerDay_def request_def)
  from recent_orders_count_hidden [OF t, of shop] obtain rows where
    "getRecentOrdersCount (request 900000000 0) shop =
            \<lparr>code = 200, success = True, message = None,
             payload = RecentData (length (entries shop)) rows\<rparr>"
    "map wDate rows = map (\<lambda>i. dayIn 0 (now (request 900000000 0) - i * msPerDay)) [6, 5, 4, 3, 2, 1, 0]"
    by blast
  then show ?thesis using l k by auto
qed

text \<open>
  X2. In the summary of getPendingDeliveries the date is the current day in Asia/Kolkata,
  and the two counts for today are those of the entries in scope created on that day, and
  of the entries in scope expected on that day and not delivered.
\<close>

theorem today_counts_are_kolkata_days:
  "payload (getPendingDeliveries env d None pg sa) = SummaryData s \<Longrightarrow>
     sDate s = dayIn kolkata (now env)
   \<and> sTodayReceived s =
       length (filter (\<lambda>e. dayIn kolkata (createdAt e) = dayIn kolkata (now env)) (inScope sa d))
   \<and> sTodayExpected s =
       length (filter (\<lambda>e. (\<exists>t. expectedDelivery (pickupAndDelivery e) = Some t
                                \<and> dayIn kolkata t = dayIn kolkata (now env))
                          \<and> status e \<noteq> Some ''delivered'') (inScope sa d))"
proof -
  assume a: "payload (getPendingDeliveries env d None pg sa) = SummaryData s"
  then have p: "payload (pendingSummary env d sa) = SummaryData s"
    by (simp add: getPendingDeliveries_def)
  have d: "sDate s = dayIn kolkata (now env)"
    using p by (auto simp: pendingSummary_def Let_def reply_def split: option.splits)
  have e: "(\<lambda>e. matches d e
                     (Both (ExpectedBetween (startOfDay kolkata (now env)) (endOfDay kolkata (now env)))
                           (StatusNe ''delivered'')))
         = (\<lambda>e. (\<exists>t. expectedDelivery (pickupAndDelivery e) = Some t
                                \<and> dayIn kolkata t = dayIn kolkata (now env))
                          \<and> status e \<noteq> Some ''delivered'')"
    by (auto simp: today_window_is_kolkata_day fun_eq_iff split: option.splits)
  have r: "(\<lambda>e. matches d e
                     (CreatedBetween (startOfDay kolkata (now env)) (endOfDay kolkata (now env))))
         = (\<lambda>e. dayIn kolkata (createdAt e) = dayIn kolkata (now env))"
    by (simp add: today_window_is_kolkata_day fun_eq_iff)
  from pendingSummary_scope[OF p] d show ?thesis
    by (simp only: e r)
qed

theorem today_counts_are_kolkata_days_witness:
  "sTodayReceived (case payload (getPendingDeliveries (request 900000000 0) shop None None (Some ''true''))
                     of SummaryData s \<Rightarrow> s) = 3"
proof -
  have p: "payload (getPendingDeliveries (request 900000000 0) shop None None (Some ''true''))
     = SummaryData (case payload (getPendingDeliveries (request 900000000 0) shop None None (Some ''true''))
                     of SummaryData s \<Rightarrow> s)"
    by (simp add: getPendingDeliveries_def pendingSummary_def request_def Let_def)
  have k: "length (filter (\<lambda>e. dayIn kolkata (createdAt e) = dayIn kolkata (now (request 900000000 0)))
             (inScope (Some ''true'') shop)) = 3"
    by (simp add: inScope_def shop_def anna_def bela_def cara_def dayIn_def kolkata_def
          msPerDay_def request_def)
  from today_counts_are_kolkata_days [OF p] k show ?thesis by simp
qed

subsection \<open>Deleting what is not there\<close>

text \<open>
  X3. Deleting an id that no entry has answers 404 and leaves the store, the summary
  record included, as it was.
\<close>

theorem delete_missing:
  "findById d i = None \<Longrightarrow> throws env DeleteEntry = None \<Longrightarrow>
   deleteEntry env d i = (reply 404 False ''Entry Not found'' NoData, d)"
  by (simp add: deleteEntry_def)

theorem delete_missing_witness:
  "deleteEntry (request 900000000 0) shop 9 = (reply 404 False ''Entry Not found'' NoData, shop)"
proof -
  have f: "findById shop 9 = None"
    by (simp add: findById_def shop_def anna_def bela_def cara_def)
  have t: "throws (request 900000000 0) DeleteEntry = None" by (simp add: request_def)
  from delete_missing [OF f t] show ?thesis .
qed

subsection \<open>Two creations at once\<close>

text \<open>
  C1 at a failing input. Two requests of createNewentry are in flight and take turns at
  every \<open>await\<close>. Both read the counter at 7 before either saves it: both hold the
  receipt number 0007, both answer 201 with it, and the counter ends at 8, not 9.
\<close>

theorem concurrent_creations_share_a_receipt:
  "map (\<lambda>p. receiptOf (snd p))
     (snd (runSchedule [0, 1, 0, 1, 0, 1]
            (shop, [(request 900000000 101, Start sareeOrder), (request 900000001 102, Start sareeOrder)])))
     = [Some ''0007'', Some ''0007'']
   \<and> map (\<lambda>p. receiptOf (snd p))
     (snd (runSchedule [0, 1, 0, 1, 0, 1, 0, 1, 0, 1, 0, 1]
            (shop, [(request 900000000 101, Start sareeOrder), (request 900000001 102, Start sareeOrder)])))
     = [Some ''0007'', Some ''0007'']
   \<and> currentReceiptNumber
      (fst (runSchedule [0, 1, 0, 1, 0, 1, 0, 1, 0, 1, 0, 1]
            (shop, [(request 900000000 101, Start sareeOrder), (request 900000001 102, Start sareeOrder)])))
     = Some 8"
  by (simp add: runSchedule_def stepAt_def request_def shop_def sareeOrder_def
        manualUpdateStats_def reply_def Let_def js_add1_def newEntry_def
        js_String.simps digit_char_def padStart_def numeral_3_eq_3)

end
